theory Spec2Isabelle
  imports Main "HOL-Library.Word"
begin

section \<open>Conventions\<close>

text \<open>
  The development embeds \<^verbatim>\<open>src/v8eval.cxx\<close> and \<^verbatim>\<open>src/v8eval.h\<close>.
  Member names of the C++ classes end in an underscore, which is not an Isabelle
  identifier; the underscore is dropped (\<^verbatim>\<open>status_\<close> is \<open>status\<close>,
  \<^verbatim>\<open>accept_\<close> is \<open>accept\<close>), and \<^verbatim>\<open>context_\<close> is
  \<open>context_persistent\<close>. The class \<^verbatim>\<open>_V8\<close> is the record \<open>V8\<close>.

  Every point at which the C++ leaves defined behaviour, aborts the process or blocks
  for ever is a value of type \<open>fault\<close>; a function that can reach one returns
  \<open>fault + 'a\<close>.
\<close>

datatype fault =
    Uninitialized string
      \<comment> \<open>a member is used before anything assigned or initialised it\<close>
  | Empty_MaybeLocal
      \<comment> \<open>\<^verbatim>\<open>ToLocalChecked()\<close> on an empty \<^verbatim>\<open>MaybeLocal\<close>: the engine aborts\<close>
  | Empty_Handle
      \<comment> \<open>\<^verbatim>\<open>operator->\<close> on an empty \<^verbatim>\<open>Local\<close>\<close>
  | Bad_Cast
      \<comment> \<open>\<^verbatim>\<open>Local<Function>::Cast\<close> of a value that is no function: an abort in a
          build with checks, undefined behaviour at the call through it otherwise\<close>
  | Handle_Closing string
      \<comment> \<open>\<^verbatim>\<open>uv_close\<close> on a handle that is already closing (libuv asserts)\<close>
  | Not_Joinable string
      \<comment> \<open>\<^verbatim>\<open>uv_thread_join\<close> on a thread that was joined before\<close>
  | Never_returns string
      \<comment> \<open>\<^verbatim>\<open>uv_thread_join\<close> on a thread whose loop keeps an active handle: the
          thread stays in \<^verbatim>\<open>uv_run\<close> and the call blocks for ever\<close>

text \<open>
  \<^verbatim>\<open>std::string::c_str()\<close> handed to a function that reads a NUL-terminated
  \<^verbatim>\<open>const char*\<close>: the callee sees the bytes before the first NUL. The same
  holds for a \<^verbatim>\<open>std::string\<close> constructed from a \<^verbatim>\<open>char*\<close>.
\<close>

definition c_str :: "string \<Rightarrow> string" where
  "c_str s = takeWhile (\<lambda>c. c \<noteq> CHR 0x00) s"

section \<open>The scripting engine as a parameter\<close>

text \<open>
  The engine (V8) is not part of the repository. The calls the source makes into it are
  the fields of a record, over an isolate state \<open>'h\<close>, context handles \<open>'c\<close>,
  values \<open>'v\<close> and compiled scripts \<open>'s\<close>. A call that returns a
  \<^verbatim>\<open>MaybeLocal\<close> yields \<open>Inr\<close> the value, or \<open>Inl\<close> the exception that
  the enclosing \<^verbatim>\<open>TryCatch\<close> then holds. The deprecated conversions
  \<^verbatim>\<open>ToObject()\<close> and \<^verbatim>\<open>ToString()\<close> return an empty handle
  (\<open>None\<close>) when they fail. Calls without a context argument in the API run in the
  entered context, which the model passes explicitly.
\<close>

record ('h, 'c, 'v, 's) engine =
  Context_New :: "'h \<Rightarrow> 'c \<times> 'h"
  String_NewFromUtf8 :: "string \<Rightarrow> 'v option"
  Utf8Value :: "'h \<Rightarrow> 'c \<Rightarrow> 'v \<Rightarrow> string option \<times> 'h"
  Global :: "'c \<Rightarrow> 'v"
  Object_Get :: "'h \<Rightarrow> 'c \<Rightarrow> 'v \<Rightarrow> 'v \<Rightarrow> ('v + 'v) \<times> 'h"
  ToObject :: "'h \<Rightarrow> 'c \<Rightarrow> 'v \<Rightarrow> 'v option \<times> 'h"
  ToString :: "'h \<Rightarrow> 'c \<Rightarrow> 'v \<Rightarrow> 'v option \<times> 'h"
  IsFunction :: "'h \<Rightarrow> 'v \<Rightarrow> bool"
  IsArray :: "'h \<Rightarrow> 'v \<Rightarrow> bool"
  Function_Call :: "'h \<Rightarrow> 'c \<Rightarrow> 'v \<Rightarrow> 'v \<Rightarrow> 'v list \<Rightarrow> ('v + 'v) \<times> 'h"
  Script_Compile :: "'h \<Rightarrow> 'c \<Rightarrow> 'v \<Rightarrow> 'v \<Rightarrow> ('v + 's) \<times> 'h"
  Script_Run :: "'h \<Rightarrow> 'c \<Rightarrow> 's \<Rightarrow> ('v + 'v) \<times> 'h"

section \<open>The class \<^verbatim>\<open>_V8\<close>\<close>

text \<open>
  \<^verbatim>\<open>debugger_cb\<close> is a function pointer. The only function the repository
  registers is \<^verbatim>\<open>DbgSrv::recv_from_debugger_\<close>; any other callback of a host
  application is \<open>Host_callback\<close>.
\<close>

datatype debugger_cb = Recv_from_debugger | Host_callback nat

text \<open>
  \<^verbatim>\<open>dbg_isolate_\<close> is a plain pointer member that the constructor does not
  assign: until \<^verbatim>\<open>debugger_init\<close> stores an isolate in it, its value is
  indeterminate.
\<close>

datatype isolate_ptr = Indeterminate | Isolate

text \<open>
  Besides the members of the class, the record holds the two pieces of the engine's debug
  channel that the methods act on: whether \<^verbatim>\<open>Debug::SetMessageHandler\<close>
  installed \<^verbatim>\<open>debugger_message_handler\<close>, and the commands handed to
  \<^verbatim>\<open>Debug::SendCommand\<close>, oldest first.
\<close>

record ('h, 'c) V8 =
  isolate :: 'h
  dbg_isolate :: isolate_ptr
  context_persistent :: "'c option"
  callback :: "debugger_cb option"
  callbackopq :: "nat option"
  message_handler :: bool
  debug_commands :: "string list"

definition new_context ::
  "('h, 'c, 'v, 's) engine \<Rightarrow> ('h, 'c) V8 \<Rightarrow> 'c \<times> ('h, 'c) V8" where
  "new_context E s =
     (case context_persistent s of
        None \<Rightarrow> (case Context_New E (isolate s) of (c, h) \<Rightarrow> (c, s\<lparr>isolate := h\<rparr>))
      | Some c \<Rightarrow> (c, s))"

text \<open>
  The constructor: \<open>h0\<close> is the state of the isolate that
  \<^verbatim>\<open>Isolate::New\<close> returned. \<^verbatim>\<open>callbackopq_\<close> and
  \<^verbatim>\<open>dbg_isolate_\<close> are not assigned.
\<close>

definition V8_ctor :: "('h, 'c, 'v, 's) engine \<Rightarrow> 'h \<Rightarrow> ('h, 'c) V8" where
  "V8_ctor E h0 =
     (let s = \<lparr>isolate = h0, dbg_isolate = Indeterminate, context_persistent = None,
                callback = None, callbackopq = None, message_handler = False,
                debug_commands = []\<rparr>
      in case new_context E s of (c, s') \<Rightarrow> s'\<lparr>context_persistent := Some c\<rparr>)"

definition ToLocalChecked :: "'a option \<Rightarrow> fault + 'a" where
  "ToLocalChecked m = (case m of None \<Rightarrow> Inl Empty_MaybeLocal | Some x \<Rightarrow> Inr x)"

text \<open>\<open>str\<close> is the C string the caller passes (never a null pointer in this file).\<close>

definition new_string :: "('h, 'c, 'v, 's) engine \<Rightarrow> string \<Rightarrow> fault + 'v" where
  "new_string E str = ToLocalChecked (String_NewFromUtf8 E str)"

text \<open>
  \<^verbatim>\<open>to_std_string\<close>: \<^verbatim>\<open>*str\<close> is null when the handle is empty or the
  conversion fails; otherwise the \<^verbatim>\<open>std::string\<close> is built from the
  \<^verbatim>\<open>char*\<close>.
\<close>

definition to_std_string ::
  "('h, 'c, 'v, 's) engine \<Rightarrow> 'h \<Rightarrow> 'c \<Rightarrow> 'v option \<Rightarrow> string \<times> 'h" where
  "to_std_string E h c val =
     (case val of
        None \<Rightarrow> (''Error: Cannot convert to string'', h)
      | Some v \<Rightarrow>
          (case Utf8Value E h c v of
             (None, h') \<Rightarrow> (''Error: Cannot convert to string'', h')
           | (Some str, h') \<Rightarrow> (c_str str, h')))"

text \<open>
  The lookup of \<^verbatim>\<open>JSON.parse\<close> and \<^verbatim>\<open>JSON.stringify\<close> shared by
  \<^verbatim>\<open>json_parse\<close> and \<^verbatim>\<open>json_stringify\<close>: the first three
  statements of both functions.
\<close>

definition json_member ::
  "('h, 'c, 'v, 's) engine \<Rightarrow> 'c \<Rightarrow> string \<Rightarrow> 'h \<Rightarrow> fault + ('v \<times> 'v \<times> 'h)" where
  "json_member E c member h =
     (case new_string E ''JSON'' of
        Inl f \<Rightarrow> Inl f
      | Inr kjson \<Rightarrow>
     (case Object_Get E h c (Global E c) kjson of
        (Inl exc, h1) \<Rightarrow> Inl Empty_MaybeLocal
      | (Inr jsonv, h1) \<Rightarrow>
     (case ToObject E h1 c jsonv of
        (None, h2) \<Rightarrow> Inl Empty_Handle
      | (Some json, h2) \<Rightarrow>
     (case new_string E member of
        Inl f \<Rightarrow> Inl f
      | Inr kmember \<Rightarrow>
     (case Object_Get E h2 c json kmember of
        (Inl exc, h3) \<Rightarrow> Inl Empty_MaybeLocal
      | (Inr fn, h3) \<Rightarrow>
          if IsFunction E h3 fn then Inr (json, fn, h3) else Inl Bad_Cast)))))"

definition json_parse ::
  "('h, 'c, 'v, 's) engine \<Rightarrow> 'c \<Rightarrow> 'v \<Rightarrow> 'h \<Rightarrow> fault + ('v option \<times> 'h)" where
  "json_parse E c str h =
     (case json_member E c ''parse'' h of
        Inl f \<Rightarrow> Inl f
      | Inr (json, parse, h1) \<Rightarrow>
          (case Function_Call E h1 c parse json [str] of
             (Inl exc, h2) \<Rightarrow> Inr (None, h2)
           | (Inr result, h2) \<Rightarrow> Inr (Some result, h2)))"

definition json_stringify ::
  "('h, 'c, 'v, 's) engine \<Rightarrow> 'c \<Rightarrow> 'v \<Rightarrow> 'h \<Rightarrow> fault + ('v option \<times> 'h)" where
  "json_stringify E c val h =
     (case json_member E c ''stringify'' h of
        Inl f \<Rightarrow> Inl f
      | Inr (json, stringify, h1) \<Rightarrow>
          (case Function_Call E h1 c stringify json [val] of
             (Inl exc, h2) \<Rightarrow>
               (case new_string E '''' of Inl f \<Rightarrow> Inl f | Inr e \<Rightarrow> Inr (Some e, h2))
           | (Inr result, h2) \<Rightarrow> Inr (ToString E h2 c result)))"

text \<open>
  The body of \<^verbatim>\<open>eval\<close> once \<^verbatim>\<open>new_context()\<close> has returned the
  context \<open>c\<close>.
\<close>

definition eval_in ::
  "('h, 'c, 'v, 's) engine \<Rightarrow> 'c \<Rightarrow> string \<Rightarrow> ('h, 'c) V8 \<Rightarrow> fault + (string \<times> ('h, 'c) V8)" where
  "eval_in E c src s =
     (case new_string E (c_str src) of
        Inl f \<Rightarrow> Inl f
      | Inr source \<Rightarrow>
     (case new_string E ''v8eval'' of
        Inl f \<Rightarrow> Inl f
      | Inr name \<Rightarrow>
     (case Script_Compile E (isolate s) c source name of
        (Inl exc, h1) \<Rightarrow>
          (case to_std_string E h1 c (Some exc) of (txt, h2) \<Rightarrow> Inr (txt, s\<lparr>isolate := h2\<rparr>))
      | (Inr script, h1) \<Rightarrow>
     (case Script_Run E h1 c script of
        (Inl exc, h2) \<Rightarrow>
          (case to_std_string E h2 c (Some exc) of (txt, h3) \<Rightarrow> Inr (txt, s\<lparr>isolate := h3\<rparr>))
      | (Inr result, h2) \<Rightarrow>
     (case json_stringify E c result h2 of
        Inl f \<Rightarrow> Inl f
      | Inr (js, h3) \<Rightarrow>
          (case to_std_string E h3 c js of (txt, h4) \<Rightarrow> Inr (txt, s\<lparr>isolate := h4\<rparr>)))))))"

definition eval ::
  "('h, 'c, 'v, 's) engine \<Rightarrow> string \<Rightarrow> ('h, 'c) V8 \<Rightarrow> fault + (string \<times> ('h, 'c) V8)" where
  "eval E src s = (case new_context E s of (c, s') \<Rightarrow> eval_in E c src s')"

text \<open>The body of \<^verbatim>\<open>call\<close> once \<^verbatim>\<open>new_context()\<close> has returned \<open>c\<close>.\<close>

definition call_in ::
  "('h, 'c, 'v, 's) engine \<Rightarrow> 'c \<Rightarrow> string \<Rightarrow> string \<Rightarrow> ('h, 'c) V8 \<Rightarrow>
     fault + (string \<times> ('h, 'c) V8)" where
  "call_in E c func args s =
     (case new_string E (c_str func) of
        Inl f \<Rightarrow> Inl f
      | Inr kfunc \<Rightarrow>
     (case Object_Get E (isolate s) c (Global E c) kfunc of
        (Inl exc, h1) \<Rightarrow>
          (case to_std_string E h1 c (Some exc) of (txt, h2) \<Rightarrow> Inr (txt, s\<lparr>isolate := h2\<rparr>))
      | (Inr result, h1) \<Rightarrow>
          if \<not> IsFunction E h1 result
          then Inr (''TypeError: '' @ [CHR 0x27] @ func @ [CHR 0x27] @ '' is not a function'',
                    s\<lparr>isolate := h1\<rparr>)
          else
     (case new_string E ''apply'' of
        Inl f \<Rightarrow> Inl f
      | Inr kapply \<Rightarrow>
     (case Object_Get E h1 c result kapply of
        (Inl exc, h2) \<Rightarrow> Inl Empty_MaybeLocal
      | (Inr apply, h2) \<Rightarrow>
          if \<not> IsFunction E h2 apply then Inl Bad_Cast
          else
     (case new_string E (c_str args) of
        Inl f \<Rightarrow> Inl f
      | Inr sargs \<Rightarrow>
     (case json_parse E c sargs h2 of
        Inl f \<Rightarrow> Inl f
      | Inr (arguments, h3) \<Rightarrow>
          if arguments = None \<or> \<not> IsArray E h3 (the arguments)
          then Inr (''TypeError: '' @ [CHR 0x27] @ args @ [CHR 0x27] @ '' is not an array'',
                    s\<lparr>isolate := h3\<rparr>)
          else
     (case Function_Call E h3 c apply result [result, the arguments] of
        (Inl exc, h4) \<Rightarrow>
          (case to_std_string E h4 c (Some exc) of (txt, h5) \<Rightarrow> Inr (txt, s\<lparr>isolate := h5\<rparr>))
      | (Inr r, h4) \<Rightarrow>
     (case json_stringify E c r h4 of
        Inl f \<Rightarrow> Inl f
      | Inr (js, h5) \<Rightarrow>
          (case to_std_string E h5 c js of (txt, h6) \<Rightarrow> Inr (txt, s\<lparr>isolate := h6\<rparr>))))))))))"

definition call ::
  "('h, 'c, 'v, 's) engine \<Rightarrow> string \<Rightarrow> string \<Rightarrow> ('h, 'c) V8 \<Rightarrow>
     fault + (string \<times> ('h, 'c) V8)" where
  "call E func args s = (case new_context E s of (c, s') \<Rightarrow> call_in E c func args s')"

subsection \<open>Sequences of calls on one instance\<close>

text \<open>
  A host calls \<^verbatim>\<open>eval\<close> and \<^verbatim>\<open>call\<close> one after the other on an
  instance. \<open>api_run\<close> is such a sequence, stopping at a fault; \<open>api_run_in c\<close> is
  the same sequence with every call running its body in the one context \<open>c\<close>.
\<close>

datatype api_call = Eval string | Call string string

fun api_step ::
  "('h, 'c, 'v, 's) engine \<Rightarrow> api_call \<Rightarrow> ('h, 'c) V8 \<Rightarrow> fault + (string \<times> ('h, 'c) V8)" where
  "api_step E (Eval src) s = eval E src s"
| "api_step E (Call func args) s = call E func args s"

fun api_step_in ::
  "('h, 'c, 'v, 's) engine \<Rightarrow> 'c \<Rightarrow> api_call \<Rightarrow> ('h, 'c) V8 \<Rightarrow>
     fault + (string \<times> ('h, 'c) V8)" where
  "api_step_in E c (Eval src) s = eval_in E c src s"
| "api_step_in E c (Call func args) s = call_in E c func args s"

fun api_run ::
  "('h, 'c, 'v, 's) engine \<Rightarrow> api_call list \<Rightarrow> ('h, 'c) V8 \<Rightarrow>
     fault + (string list \<times> ('h, 'c) V8)" where
  "api_run E [] s = Inr ([], s)"
| "api_run E (a # ops) s =
     (case api_step E a s of
        Inl f \<Rightarrow> Inl f
      | Inr (txt, s') \<Rightarrow>
          (case api_run E ops s' of
             Inl f \<Rightarrow> Inl f
           | Inr (txts, s'') \<Rightarrow> Inr (txt # txts, s'')))"

fun api_run_in ::
  "('h, 'c, 'v, 's) engine \<Rightarrow> 'c \<Rightarrow> api_call list \<Rightarrow> ('h, 'c) V8 \<Rightarrow>
     fault + (string list \<times> ('h, 'c) V8)" where
  "api_run_in E c [] s = Inr ([], s)"
| "api_run_in E c (a # ops) s =
     (case api_step_in E c a s of
        Inl f \<Rightarrow> Inl f
      | Inr (txt, s') \<Rightarrow>
          (case api_run_in E c ops s' of
             Inl f \<Rightarrow> Inl f
           | Inr (txts, s'') \<Rightarrow> Inr (txt # txts, s'')))"

subsection \<open>The debug channel of \<^verbatim>\<open>_V8\<close>\<close>

definition debugger_init ::
  "debugger_cb \<Rightarrow> nat \<Rightarrow> ('h, 'c) V8 \<Rightarrow> bool \<times> ('h, 'c) V8" where
  "debugger_init cb cbopq s =
     (let s1 = s\<lparr>dbg_isolate := Isolate\<rparr> in
      if callback s1 \<noteq> None then (False, s1)
      else (True, s1\<lparr>callback := Some cb, callbackopq := Some cbopq, message_handler := True\<rparr>))"

text \<open>
  \<^verbatim>\<open>debugger_send\<close> first locks \<^verbatim>\<open>dbg_isolate_\<close>, then tests the
  callback. The text reaches \<^verbatim>\<open>Debug::SendCommand\<close> through
  \<^verbatim>\<open>String::NewFromUtf8(dbg_isolate_, cmd.c_str(), ...)\<close>; the transcoding to
  16-bit units is the engine's.
\<close>

definition debugger_send ::
  "('h, 'c, 'v, 's) engine \<Rightarrow> string \<Rightarrow> ('h, 'c) V8 \<Rightarrow> fault + (bool \<times> ('h, 'c) V8)" where
  "debugger_send E cmd s =
     (if dbg_isolate s = Indeterminate then Inl (Uninitialized ''dbg_isolate_'')
      else if callback s = None then Inr (False, s)
      else
        (case ToLocalChecked (String_NewFromUtf8 E (c_str cmd)) of
           Inl f \<Rightarrow> Inl f
         | Inr vstr \<Rightarrow> Inr (True, s\<lparr>debug_commands := debug_commands s @ [c_str cmd]\<rparr>)))"

definition debugger_stop :: "('h, 'c) V8 \<Rightarrow> ('h, 'c) V8" where
  "debugger_stop s = s\<lparr>message_handler := False, callback := None\<rparr>"

section \<open>libuv handles, threads and loops\<close>

text \<open>
  libuv is not part of the repository either. A handle, thread or loop object is a
  member of \<^verbatim>\<open>DbgSrv\<close>; its memory holds nothing meaningful until the matching
  \<^verbatim>\<open>uv_*_init\<close> or \<^verbatim>\<open>uv_thread_create\<close> ran, and a library call on it
  before that is undefined. \<^verbatim>\<open>uv_*_init\<close> does not look at what the memory
  held: on a handle that is in use it starts a new handle in the same place. Return
  codes that the source discards (\<^verbatim>\<open>uv_loop_init\<close>, \<^verbatim>\<open>uv_async_init\<close>,
  \<^verbatim>\<open>uv_tcp_init\<close>, \<^verbatim>\<open>uv_thread_create\<close>, \<^verbatim>\<open>uv_read_start\<close>,
  \<^verbatim>\<open>uv_loop_close\<close>) are taken to report success. Both loops are initialised by
  the constructor, so a loop is either initialised or closed.

  A handle is \<open>Handle_init\<close> after \<^verbatim>\<open>uv_tcp_init\<close> and \<open>Handle_active\<close> once it
  was started: an async handle by \<^verbatim>\<open>uv_async_init\<close>, a TCP handle by
  \<^verbatim>\<open>uv_listen\<close> or \<^verbatim>\<open>uv_read_start\<close>. An initialised loop counts its active
  handles (\<^verbatim>\<open>active_handles\<close>): starting a handle adds one, closing an active
  handle takes one away, and \<^verbatim>\<open>uv_run(loop, UV_RUN_DEFAULT)\<close>, which is all a
  thread of the bridge does, returns when the count is zero. Initialising a handle that
  is active clears its flags but not the loop's count, so starting it again counts it a
  second time.
\<close>

datatype uv_handle = Handle_uninit | Handle_init | Handle_active | Handle_closing

datatype uv_thread = Thread_uninit | Thread_running | Thread_joined

datatype uv_loop = Loop_init nat | Loop_closed

definition uv_handle_start :: "uv_loop \<Rightarrow> uv_loop" where
  "uv_handle_start l = (case l of Loop_init n \<Rightarrow> Loop_init (Suc n) | Loop_closed \<Rightarrow> Loop_closed)"

definition uv_handle_stop :: "uv_loop \<Rightarrow> uv_loop" where
  "uv_handle_stop l = (case l of Loop_init n \<Rightarrow> Loop_init (n - 1) | Loop_closed \<Rightarrow> Loop_closed)"

definition uv_loop_alive :: "uv_loop \<Rightarrow> bool" where
  "uv_loop_alive l = (case l of Loop_init n \<Rightarrow> 0 < n | Loop_closed \<Rightarrow> False)"

text \<open>
  The calls the bridge makes into libuv and into its \<^verbatim>\<open>_V8\<close> instance, recorded in
  program order. \<open>Uv_write buf\<close> is a write request the stream took; \<open>Uv_write_refused\<close>
  is a \<^verbatim>\<open>uv_write\<close> that returned an error because the stream is closing or has
  no connection.
\<close>

datatype uv_call =
    Uv_loop_init string
  | Uv_async_init string
  | Uv_thread_create string
  | Uv_tcp_init string
  | Uv_tcp_bind
  | Uv_tcp_getsockname
  | Uv_listen
  | Uv_accept
  | Uv_read_start string
  | Uv_async_send string
  | Uv_thread_join string
  | Uv_loop_close string
  | Uv_close string
  | Uv_write string
  | Uv_write_refused string
  | V8_debugger_init
  | V8_debugger_send string
  | V8_debugger_stop

text \<open>\<^verbatim>\<open>uv_close\<close> of a handle of the loop \<open>l\<close>: the handle and the loop after it.\<close>

definition uv_close :: "string \<Rightarrow> uv_handle \<Rightarrow> uv_loop \<Rightarrow> fault + (uv_handle \<times> uv_loop)" where
  "uv_close nm h l =
     (case h of
        Handle_uninit \<Rightarrow> Inl (Uninitialized nm)
      | Handle_init \<Rightarrow> Inr (Handle_closing, l)
      | Handle_active \<Rightarrow> Inr (Handle_closing, uv_handle_stop l)
      | Handle_closing \<Rightarrow> Inl (Handle_Closing nm))"

text \<open>A wake-up sent to a closing handle is dropped by the loop.\<close>

definition uv_async_send :: "string \<Rightarrow> uv_handle \<Rightarrow> fault + uv_call list" where
  "uv_async_send nm h =
     (case h of
        Handle_uninit \<Rightarrow> Inl (Uninitialized nm)
      | Handle_init \<Rightarrow> Inr [Uv_async_send nm]
      | Handle_active \<Rightarrow> Inr [Uv_async_send nm]
      | Handle_closing \<Rightarrow> Inr [Uv_async_send nm])"

text \<open>
  \<^verbatim>\<open>uv_thread_join\<close> of a thread that runs the loop \<open>l\<close>: it returns when the
  thread has left \<^verbatim>\<open>uv_run\<close>, that is when no handle of the loop is active, and
  never otherwise.
\<close>

definition uv_thread_join :: "string \<Rightarrow> uv_thread \<Rightarrow> uv_loop \<Rightarrow> fault + uv_thread" where
  "uv_thread_join nm t l =
     (case t of
        Thread_uninit \<Rightarrow> Inl (Uninitialized nm)
      | Thread_running \<Rightarrow> if uv_loop_alive l then Inl (Never_returns nm) else Inr Thread_joined
      | Thread_joined \<Rightarrow> Inl (Not_Joinable nm))"

text \<open>\<^verbatim>\<open>uv_buf_init(base, len)\<close> with \<^verbatim>\<open>len\<close> an \<^verbatim>\<open>unsigned int\<close>.\<close>

definition uv_buf_init :: "string \<Rightarrow> nat \<Rightarrow> string" where
  "uv_buf_init base len = take len base"

definition uv_write :: "string \<Rightarrow> uv_handle \<Rightarrow> string \<Rightarrow> fault + uv_call list" where
  "uv_write nm h buf =
     (case h of
        Handle_uninit \<Rightarrow> Inl (Uninitialized nm)
      | Handle_init \<Rightarrow> Inr [Uv_write_refused buf]
      | Handle_active \<Rightarrow> Inr [Uv_write buf]
      | Handle_closing \<Rightarrow> Inr [Uv_write_refused buf])"

section \<open>The class \<^verbatim>\<open>DbgSrv\<close>\<close>

datatype dbgsrv_status = dbgsrv_offline | dbgsrv_started | dbgsrv_connected

text \<open>
  The members of the class (the reference \<^verbatim>\<open>v8_\<close> is the \<open>V8\<close> value passed
  along with the record), and two observations of the library side: \<open>clnt_peer\<close>, the
  connection that \<^verbatim>\<open>uv_accept\<close> attached to \<^verbatim>\<open>dbgsrv_clnt_\<close>, and
  \<open>calls\<close>, the calls made so far.
\<close>

record DbgSrv =
  status :: dbgsrv_status
  msg_queue :: "string list"
  dbgsrv_port :: int
  dbgsrv_serv :: uv_handle
  dbgsrv_clnt :: uv_handle
  dbgsrv_send :: uv_handle
  dbgsrv_stop :: uv_handle
  dbgsrv_thread :: uv_thread
  dbgsrv_loop :: uv_loop
  dbgproc_proc :: uv_handle
  dbgproc_stop :: uv_handle
  dbgproc_thread :: uv_thread
  dbgproc_loop :: uv_loop
  clnt_peer :: "nat option"
  calls :: "uv_call list"

text \<open>
  The constructor. \<^verbatim>\<open>msg_queue_\<close> is default-constructed, hence empty. The two
  \<^verbatim>\<open>uv_async_init\<close> start the handles of the processing loop, which counts two
  active handles; the network loop has none yet.
\<close>

definition DbgSrv_ctor :: DbgSrv where
  "DbgSrv_ctor =
     \<lparr>status = dbgsrv_offline, msg_queue = [], dbgsrv_port = 0,
      dbgsrv_serv = Handle_uninit, dbgsrv_clnt = Handle_uninit,
      dbgsrv_send = Handle_uninit, dbgsrv_stop = Handle_uninit,
      dbgsrv_thread = Thread_uninit, dbgsrv_loop = Loop_init 0,
      dbgproc_proc = Handle_active, dbgproc_stop = Handle_active,
      dbgproc_thread = Thread_running, dbgproc_loop = Loop_init 2,
      clnt_peer = None,
      calls = [Uv_loop_init ''dbgsrv_loop_'', Uv_loop_init ''dbgproc_loop_'',
               Uv_async_init ''dbgproc_proc_'', Uv_async_init ''dbgproc_stop_'',
               Uv_thread_create ''dbgproc_thread_'']\<rparr>"

definition get_port :: "DbgSrv \<Rightarrow> int" where
  "get_port db = dbgsrv_port db"

definition dbgproc_do_stop :: "DbgSrv \<Rightarrow> fault + DbgSrv" where
  "dbgproc_do_stop db =
     (case uv_close ''dbgproc_proc_'' (dbgproc_proc db) (dbgproc_loop db) of
        Inl f \<Rightarrow> Inl f
      | Inr (hp, l1) \<Rightarrow>
     (case uv_close ''dbgproc_stop_'' (dbgproc_stop db) l1 of
        Inl f \<Rightarrow> Inl f
      | Inr (hs, l2) \<Rightarrow>
          Inr (db\<lparr>dbgproc_proc := hp, dbgproc_stop := hs, dbgproc_loop := l2,
                  calls := calls db @ [Uv_close ''dbgproc_proc_'', Uv_close ''dbgproc_stop_'']\<rparr>)))"

definition recv_from_debugger :: "string \<Rightarrow> DbgSrv \<Rightarrow> fault + DbgSrv" where
  "recv_from_debugger string db =
     (let db1 = db\<lparr>msg_queue := string # msg_queue db\<rparr> in
      case uv_async_send ''dbgsrv_send_'' (dbgsrv_send db1) of
        Inl f \<Rightarrow> Inl f
      | Inr cs \<Rightarrow> Inr (db1\<lparr>calls := calls db1 @ cs\<rparr>))"

text \<open>
  \<^verbatim>\<open>send_to_socket_\<close>: \<^verbatim>\<open>push_front\<close> put the newest message at the head of
  the list, and the loop takes \<^verbatim>\<open>back()\<close>, the last element, until the list is
  empty. The buffer length is \<^verbatim>\<open>(unsigned int)str.size()\<close>.
\<close>

function send_to_socket :: "DbgSrv \<Rightarrow> fault + DbgSrv" where
  "send_to_socket db =
     (if msg_queue db = [] then Inr db
      else
        (case uv_write ''dbgsrv_clnt_'' (dbgsrv_clnt db)
                (uv_buf_init (last (msg_queue db)) (length (last (msg_queue db)) mod 2 ^ 32)) of
           Inl f \<Rightarrow> Inl f
         | Inr cs \<Rightarrow>
             send_to_socket (db\<lparr>calls := calls db @ cs, msg_queue := butlast (msg_queue db)\<rparr>)))"
  by pat_completeness auto
termination
  by (relation "measure (\<lambda>db. length (msg_queue db))") auto

declare send_to_socket.simps [simp del]

text \<open>
  \<^verbatim>\<open>debugger_message_handler\<close>, the function the engine calls for each outbound
  message \<open>json\<close>; the instance is found through \<^verbatim>\<open>isolate->GetData(0)\<close>.
\<close>

definition debugger_message_handler ::
  "string \<Rightarrow> ('h, 'c) V8 \<times> DbgSrv \<Rightarrow> fault + (('h, 'c) V8 \<times> DbgSrv)" where
  "debugger_message_handler json w =
     (case w of (v, db) \<Rightarrow>
        (case callback v of
           None \<Rightarrow> Inr (v, db)
         | Some (Host_callback n) \<Rightarrow> Inr (v, db)
         | Some Recv_from_debugger \<Rightarrow>
             (case recv_from_debugger (c_str json) db of
                Inl f \<Rightarrow> Inl f
              | Inr db' \<Rightarrow> Inr (v, db'))))"

text \<open>
  \<^verbatim>\<open>recv_from_socket_\<close>: \<open>base\<close> is the buffer the read filled,
  \<^verbatim>\<open>std::string(buf->base, nread)\<close> its first \<open>nread\<close> bytes.
\<close>

definition recv_from_socket ::
  "('h, 'c, 'v, 's) engine \<Rightarrow> int \<Rightarrow> string \<Rightarrow> ('h, 'c) V8 \<times> DbgSrv \<Rightarrow>
     fault + (('h, 'c) V8 \<times> DbgSrv)" where
  "recv_from_socket E nread base w =
     (case w of (v, db) \<Rightarrow>
        if nread = 0 then Inr (v, db)
        else if nread < 0 then
          (case uv_close ''dbgsrv_send_'' (dbgsrv_send db) (dbgsrv_loop db) of
             Inl f \<Rightarrow> Inl f
           | Inr (hs, l1) \<Rightarrow>
          (case uv_close ''dbgsrv_clnt_'' (dbgsrv_clnt db) l1 of
             Inl f \<Rightarrow> Inl f
           | Inr (hc, l2) \<Rightarrow>
               Inr (v, db\<lparr>dbgsrv_send := hs, dbgsrv_clnt := hc, dbgsrv_loop := l2,
                          status := dbgsrv_started,
                          calls := calls db @ [Uv_close ''dbgsrv_send_'', Uv_close ''dbgsrv_clnt_'']\<rparr>)))
        else
          (case debugger_send E (take (nat nread) base) v of
             Inl f \<Rightarrow> Inl f
           | Inr (ok, v') \<Rightarrow>
          (case uv_async_send ''dbgproc_proc_'' (dbgproc_proc db) of
             Inl f \<Rightarrow> Inl f
           | Inr cs \<Rightarrow>
               Inr (v', db\<lparr>calls := calls db @ [V8_debugger_send (take (nat nread) base)] @ cs\<rparr>))))"

text \<open>
  \<^verbatim>\<open>accept_\<close>: \<open>st\<close> is the status libuv reports with the connection event,
  \<open>accept_r\<close> the return code of \<^verbatim>\<open>uv_accept\<close> and \<open>conn\<close> the pending
  connection that a successful \<^verbatim>\<open>uv_accept\<close> attaches to the client handle.
  \<^verbatim>\<open>uv_async_init\<close> starts the send handle and \<^verbatim>\<open>uv_read_start\<close> the client
  handle, each adding one to the network loop's count.
\<close>

definition accept :: "int \<Rightarrow> int \<Rightarrow> nat \<Rightarrow> DbgSrv \<Rightarrow> fault + DbgSrv" where
  "accept st accept_r conn db =
     (if st < 0 then Inr db
      else
        (let db1 = db\<lparr>dbgsrv_clnt := Handle_init, clnt_peer := None,
                       calls := calls db @ [Uv_tcp_init ''dbgsrv_clnt_'', Uv_accept]\<rparr> in
         if accept_r \<noteq> 0 then
           (case uv_close ''dbgsrv_clnt_'' (dbgsrv_clnt db1) (dbgsrv_loop db1) of
              Inl f \<Rightarrow> Inl f
            | Inr (hc, l1) \<Rightarrow>
                Inr (db1\<lparr>dbgsrv_clnt := hc, dbgsrv_loop := l1,
                         calls := calls db1 @ [Uv_close ''dbgsrv_clnt_'']\<rparr>))
         else
           Inr (db1\<lparr>clnt_peer := Some conn, dbgsrv_send := Handle_active,
                     dbgsrv_clnt := Handle_active,
                     dbgsrv_loop := uv_handle_start (uv_handle_start (dbgsrv_loop db1)),
                     status := dbgsrv_connected,
                     calls := calls db1 @ [Uv_async_init ''dbgsrv_send_'',
                                           Uv_read_start ''dbgsrv_clnt_'']\<rparr>)))"

definition shutdown :: "DbgSrv \<Rightarrow> fault + DbgSrv" where
  "shutdown db =
     (case
        (if status db = dbgsrv_connected then
           (case uv_close ''dbgsrv_send_'' (dbgsrv_send db) (dbgsrv_loop db) of
              Inl f \<Rightarrow> Inl f
            | Inr (hs, l1) \<Rightarrow>
           (case uv_close ''dbgsrv_clnt_'' (dbgsrv_clnt db) l1 of
              Inl f \<Rightarrow> Inl f
            | Inr (hc, l2) \<Rightarrow>
                Inr (db\<lparr>dbgsrv_send := hs, dbgsrv_clnt := hc, dbgsrv_loop := l2,
                        status := dbgsrv_started,
                        calls := calls db @ [Uv_close ''dbgsrv_send_'', Uv_close ''dbgsrv_clnt_'']\<rparr>)))
         else Inr db) of
        Inl f \<Rightarrow> Inl f
      | Inr db1 \<Rightarrow>
          if status db1 = dbgsrv_started then
            (case uv_close ''dbgsrv_serv_'' (dbgsrv_serv db1) (dbgsrv_loop db1) of
               Inl f \<Rightarrow> Inl f
             | Inr (hv, l1) \<Rightarrow>
            (case uv_close ''dbgsrv_stop_'' (dbgsrv_stop db1) l1 of
               Inl f \<Rightarrow> Inl f
             | Inr (hp, l2) \<Rightarrow>
                 Inr (db1\<lparr>dbgsrv_serv := hv, dbgsrv_stop := hp, dbgsrv_loop := l2,
                          status := dbgsrv_offline,
                          calls := calls db1 @ [Uv_close ''dbgsrv_serv_'', Uv_close ''dbgsrv_stop_'']\<rparr>)))
          else Inr db1)"

text \<open>
  What the operating system answers during \<^verbatim>\<open>start\<close>: the return codes of
  \<^verbatim>\<open>uv_tcp_bind\<close>, \<^verbatim>\<open>uv_tcp_getsockname\<close> and \<^verbatim>\<open>uv_listen\<close>, and
  the two bytes of \<^verbatim>\<open>addr.sin_port\<close> in network order (most significant first)
  that \<^verbatim>\<open>uv_tcp_getsockname\<close> stores. A successful \<^verbatim>\<open>uv_listen\<close> starts
  the listening handle and \<^verbatim>\<open>uv_async_init\<close> the stop handle, each adding one to
  the network loop's count.
\<close>

record os_answers =
  bind_r :: int
  getsockname_r :: int
  sin_port :: "8 word \<times> 8 word"
  listen_r :: int

definition ntohs :: "8 word \<times> 8 word \<Rightarrow> int" where
  "ntohs p = (case p of (hi, lo) \<Rightarrow> int (unat hi) * 256 + int (unat lo))"

definition start ::
  "int \<Rightarrow> os_answers \<Rightarrow> ('h, 'c) V8 \<times> DbgSrv \<Rightarrow> bool \<times> ('h, 'c) V8 \<times> DbgSrv" where
  "start port os w =
     (case w of (v, db) \<Rightarrow>
        (let db1 = db\<lparr>dbgsrv_serv := Handle_init,
                       calls := calls db @ [Uv_tcp_init ''dbgsrv_serv_'', Uv_tcp_bind]\<rparr> in
         if bind_r os \<noteq> 0 then (False, v, db1)
         else if port = 0 \<and> getsockname_r os \<noteq> 0
         then (False, v, db1\<lparr>calls := calls db1 @ [Uv_tcp_getsockname]\<rparr>)
         else
           (let db2 = (if port = 0
                       then db1\<lparr>dbgsrv_port := ntohs (sin_port os),
                                calls := calls db1 @ [Uv_tcp_getsockname]\<rparr>
                       else db1\<lparr>dbgsrv_port := port\<rparr>);
                db3 = db2\<lparr>calls := calls db2 @ [Uv_listen]\<rparr> in
            if listen_r os \<noteq> 0 then (False, v, db3)
            else
              (True, snd (debugger_init Recv_from_debugger 0 v),
               db3\<lparr>status := dbgsrv_started, dbgsrv_serv := Handle_active,
                    dbgsrv_stop := Handle_active,
                    dbgsrv_loop := uv_handle_start (uv_handle_start (dbgsrv_loop db3)),
                    dbgsrv_thread := Thread_running,
                    calls := calls db3 @ [V8_debugger_init, Uv_async_init ''dbgsrv_stop_'',
                                          Uv_thread_create ''dbgsrv_thread_'']\<rparr>))))"

text \<open>
  The destructor. \<^verbatim>\<open>uv_async_send(&dbgsrv_stop_)\<close> wakes the network thread,
  which runs \<^verbatim>\<open>shutdown_\<close>; the thread leaves \<^verbatim>\<open>uv_run\<close> when its loop
  has no active handle left, and \<^verbatim>\<open>uv_thread_join\<close> returns after that and not
  before. The processing thread runs \<^verbatim>\<open>dbgproc_do_stop_\<close> in the same way. Each
  handler therefore stands between the wake-up and the join; it runs when the thread
  runs and the wake-up handle is active.
\<close>

definition DbgSrv_dtor ::
  "('h, 'c) V8 \<times> DbgSrv \<Rightarrow> fault + (('h, 'c) V8 \<times> DbgSrv)" where
  "DbgSrv_dtor w =
     (case w of (v, db) \<Rightarrow>
        (let v1 = debugger_stop v;
             db1 = db\<lparr>calls := calls db @ [V8_debugger_stop]\<rparr> in
     (case uv_async_send ''dbgsrv_stop_'' (dbgsrv_stop db1) of
        Inl f \<Rightarrow> Inl f
      | Inr cs1 \<Rightarrow>
     (case (if dbgsrv_thread db1 = Thread_running \<and> dbgsrv_stop db1 = Handle_active
            then shutdown (db1\<lparr>calls := calls db1 @ cs1\<rparr>)
            else Inr (db1\<lparr>calls := calls db1 @ cs1\<rparr>)) of
        Inl f \<Rightarrow> Inl f
      | Inr db2 \<Rightarrow>
     (case uv_thread_join ''dbgsrv_thread_'' (dbgsrv_thread db2) (dbgsrv_loop db2) of
        Inl f \<Rightarrow> Inl f
      | Inr t1 \<Rightarrow>
        (let db3 = db2\<lparr>dbgsrv_thread := t1, dbgsrv_loop := Loop_closed,
                       calls := calls db2 @ [Uv_thread_join ''dbgsrv_thread_'',
                                             Uv_loop_close ''dbgsrv_loop_'']\<rparr> in
     (case uv_async_send ''dbgproc_stop_'' (dbgproc_stop db3) of
        Inl f \<Rightarrow> Inl f
      | Inr cs2 \<Rightarrow>
     (case (if dbgproc_thread db3 = Thread_running \<and> dbgproc_stop db3 = Handle_active
            then dbgproc_do_stop (db3\<lparr>calls := calls db3 @ cs2\<rparr>)
            else Inr (db3\<lparr>calls := calls db3 @ cs2\<rparr>)) of
        Inl f \<Rightarrow> Inl f
      | Inr db4 \<Rightarrow>
     (case uv_thread_join ''dbgproc_thread_'' (dbgproc_thread db4) (dbgproc_loop db4) of
        Inl f \<Rightarrow> Inl f
      | Inr t2 \<Rightarrow>
          Inr (v1, db4\<lparr>dbgproc_thread := t2, dbgproc_loop := Loop_closed,
                       calls := calls db4 @ [Uv_thread_join ''dbgproc_thread_'',
                                             Uv_loop_close ''dbgproc_loop_'']\<rparr>))))))))))"

section \<open>The relay of outbound messages\<close>

text \<open>
  The two handlers that touch \<^verbatim>\<open>msg_queue_\<close>, as events on the instance and its
  bridge: the engine calling \<^verbatim>\<open>debugger_message_handler\<close> with an outbound
  message, and a firing of the send wake-up, which runs \<^verbatim>\<open>send_to_socket_\<close>.
  Each handler runs to completion before the next event.
\<close>

datatype relay_event = Engine_message string | Send_wake

fun relay_step ::
  "relay_event \<Rightarrow> ('h, 'c) V8 \<times> DbgSrv \<Rightarrow> fault + (('h, 'c) V8 \<times> DbgSrv)" where
  "relay_step (Engine_message json) w = debugger_message_handler json w"
| "relay_step Send_wake w =
     (case send_to_socket (snd w) of Inl f \<Rightarrow> Inl f | Inr db' \<Rightarrow> Inr (fst w, db'))"

fun relay ::
  "relay_event list \<Rightarrow> ('h, 'c) V8 \<times> DbgSrv \<Rightarrow> fault + (('h, 'c) V8 \<times> DbgSrv)" where
  "relay [] w = Inr w"
| "relay (e # es) w = (case relay_step e w of Inl f \<Rightarrow> Inl f | Inr w' \<Rightarrow> relay es w')"

text \<open>The messages the engine produced during a sequence of events, oldest first.\<close>

fun produced :: "relay_event list \<Rightarrow> string list" where
  "produced [] = []"
| "produced (Engine_message json # es) = json # produced es"
| "produced (Send_wake # es) = produced es"

text \<open>The buffers of the write requests among the calls, oldest first.\<close>

fun socket_writes :: "uv_call list \<Rightarrow> string list" where
  "socket_writes [] = []"
| "socket_writes (Uv_write buf # cs) = buf # socket_writes cs"
| "socket_writes (c # cs) = socket_writes cs"

text \<open>The buffer \<^verbatim>\<open>send_to_socket_\<close> builds for a queued message.\<close>

definition frame :: "string \<Rightarrow> string" where
  "frame m = uv_buf_init m (length m mod 2 ^ 32)"

section \<open>A small engine for concrete runs\<close>

text \<open>
  The theorems below hold for every engine. Concrete runs need one: \<open>toy_engine\<close>
  answers the calls of the interface the way the real engine does on the handful of
  scripts it knows. A context is a number, the isolate state lists the global bindings
  that scripts made in each context, and the built-in objects \<^verbatim>\<open>JSON\<close> and
  \<^verbatim>\<open>Math\<close> are properties of every global object.
\<close>

datatype jv =
    JUndefined
  | JNum int
  | JStr string
  | JArr "jv list"
  | JGlobalObject nat
  | JBuiltin string
  | JFunction string
  | JError string
  | JCyclic
      \<comment> \<open>an object with a property that refers to the object itself\<close>

datatype toy_script =
    Assign string int
  | Add_global string int
  | Declare_function string
  | Make_cycle string

type_synonym toy_heap = "(string \<times> jv) list list"

fun show_nat :: "nat \<Rightarrow> string" where
  "show_nat n =
     (if n < 10 then [char_of (48 + n)]
      else show_nat (n div 10) @ [char_of (48 + n mod 10)])"

declare show_nat.simps [simp del]

definition show_int :: "int \<Rightarrow> string" where
  "show_int i = (if i < 0 then CHR ''-'' # show_nat (nat (- i)) else show_nat (nat i))"

definition toy_show :: "jv \<Rightarrow> string" where
  "toy_show v =
     (case v of
        JUndefined \<Rightarrow> ''undefined''
      | JNum i \<Rightarrow> show_int i
      | JStr t \<Rightarrow> t
      | JError m \<Rightarrow> m
      | JFunction f \<Rightarrow> ''function '' @ f @ ''() { [code] }''
      | _ \<Rightarrow> ''[object Object]'')"

definition toy_builtins :: "(string \<times> jv) list" where
  "toy_builtins = [(''JSON'', JBuiltin ''JSON''), (''Math'', JBuiltin ''Math'')]"

definition toy_globals :: "toy_heap \<Rightarrow> nat \<Rightarrow> (string \<times> jv) list" where
  "toy_globals h c = (if c < length h then h ! c else []) @ toy_builtins"

definition toy_bind :: "toy_heap \<Rightarrow> nat \<Rightarrow> string \<Rightarrow> jv \<Rightarrow> toy_heap" where
  "toy_bind h c x v = (if c < length h then h[c := (x, v) # h ! c] else h)"

definition toy_get :: "toy_heap \<Rightarrow> jv \<Rightarrow> jv \<Rightarrow> jv" where
  "toy_get h obj key =
     (case (obj, key) of
        (JGlobalObject c, JStr k) \<Rightarrow>
          (case map_of (toy_globals h c) k of None \<Rightarrow> JUndefined | Some v \<Rightarrow> v)
      | (JBuiltin b, JStr k) \<Rightarrow>
          (if b = ''JSON'' \<and> k = ''stringify'' then JFunction ''JSON.stringify''
           else if b = ''JSON'' \<and> k = ''parse'' then JFunction ''JSON.parse''
           else if b = ''Math'' \<and> k = ''max'' then JFunction ''Math.max''
           else JUndefined)
      | (JFunction f, JStr k) \<Rightarrow>
          (if k = ''apply'' then JFunction ''Function.prototype.apply'' else JUndefined)
      | _ \<Rightarrow> JUndefined)"

definition toy_json_parse :: "string \<Rightarrow> jv option" where
  "toy_json_parse t =
     (if t = ''[]'' then Some (JArr [])
      else if t = ''[7]'' then Some (JArr [JNum 7])
      else if t = ''[1, 2]'' then Some (JArr [JNum 1, JNum 2])
      else if t = ''7'' then Some (JNum 7)
      else None)"

definition toy_json_scalar :: "jv \<Rightarrow> string" where
  "toy_json_scalar v =
     (case v of
        JNum i \<Rightarrow> show_int i
      | JStr t \<Rightarrow> [CHR 0x22] @ t @ [CHR 0x22]
      | _ \<Rightarrow> ''null'')"

fun toy_json_elements :: "jv list \<Rightarrow> string" where
  "toy_json_elements [] = []"
| "toy_json_elements [v] = toy_json_scalar v"
| "toy_json_elements (v # vs) = toy_json_scalar v @ '','' @ toy_json_elements vs"

text \<open>
  \<^verbatim>\<open>JSON.stringify\<close>: the encoding, \<^verbatim>\<open>undefined\<close> for a value that has
  none, a \<^verbatim>\<open>TypeError\<close> for a cyclic structure.
\<close>

definition toy_json_stringify :: "jv \<Rightarrow> jv + jv" where
  "toy_json_stringify v =
     (case v of
        JCyclic \<Rightarrow> Inl (JError ''TypeError: Converting circular structure to JSON'')
      | JNum i \<Rightarrow> Inr (JStr (show_int i))
      | JStr t \<Rightarrow> Inr (JStr ([CHR 0x22] @ t @ [CHR 0x22]))
      | JArr vs \<Rightarrow> Inr (JStr (''['' @ toy_json_elements vs @ '']''))
      | _ \<Rightarrow> Inr JUndefined)"

fun toy_max :: "jv list \<Rightarrow> int option" where
  "toy_max [] = None"
| "toy_max [JNum i] = Some i"
| "toy_max (JNum i # vs) = (case toy_max vs of None \<Rightarrow> None | Some m \<Rightarrow> Some (max i m))"
| "toy_max (v # vs) = None"

text \<open>A call of a function other than \<^verbatim>\<open>Function.prototype.apply\<close>.\<close>

definition toy_invoke :: "string \<Rightarrow> jv list \<Rightarrow> jv + jv" where
  "toy_invoke f args =
     (if f = ''JSON.stringify'' then
        (case args of [] \<Rightarrow> Inr JUndefined | v # vs \<Rightarrow> toy_json_stringify v)
      else if f = ''JSON.parse'' then
        (case args of
           JStr t # vs \<Rightarrow>
             (case toy_json_parse t of
                None \<Rightarrow> Inl (JError ''SyntaxError: Unexpected token in JSON'')
              | Some v \<Rightarrow> Inr v)
         | _ \<Rightarrow> Inl (JError ''SyntaxError: Unexpected token in JSON''))
      else if f = ''Math.max'' then
        (case toy_max args of None \<Rightarrow> Inr JUndefined | Some m \<Rightarrow> Inr (JNum m))
      else if f = ''inc'' then
        (case args of JNum i # vs \<Rightarrow> Inr (JNum (i + 1)) | _ \<Rightarrow> Inr JUndefined)
      else if f = ''fail'' then Inl (JError ''Error: fail'')
      else Inr JUndefined)"

definition toy_call :: "jv \<Rightarrow> jv \<Rightarrow> jv list \<Rightarrow> jv + jv" where
  "toy_call fn recv args =
     (case fn of
        JFunction f \<Rightarrow>
          (if f = ''Function.prototype.apply'' then
             (case (recv, args) of
                (JFunction g, [this_arg, JArr xs]) \<Rightarrow> toy_invoke g xs
              | (JFunction g, _) \<Rightarrow> toy_invoke g []
              | _ \<Rightarrow> Inl (JError ''TypeError: Function.prototype.apply was called on a non-function''))
           else toy_invoke f args)
      | _ \<Rightarrow> Inl (JError ''TypeError: not a function''))"

definition toy_compile :: "string \<Rightarrow> toy_script option" where
  "toy_compile t =
     (if t = ''x = 1'' then Some (Assign ''x'' 1)
      else if t = ''x + 1'' then Some (Add_global ''x'' 1)
      else if t = ''function inc(x) { return x + 1; }'' then Some (Declare_function ''inc'')
      else if t = ''function fail() { throw new Error(\"fail\"); }''
      then Some (Declare_function ''fail'')
      else if t = ''a = {}; a.a = a'' then Some (Make_cycle ''a'')
      else None)"

definition toy_run :: "toy_heap \<Rightarrow> nat \<Rightarrow> toy_script \<Rightarrow> (jv + jv) \<times> toy_heap" where
  "toy_run h c p =
     (case p of
        Assign x i \<Rightarrow> (Inr (JNum i), toy_bind h c x (JNum i))
      | Add_global x i \<Rightarrow>
          (case map_of (toy_globals h c) x of
             Some (JNum j) \<Rightarrow> (Inr (JNum (j + i)), h)
           | Some v \<Rightarrow> (Inr JUndefined, h)
           | None \<Rightarrow> (Inl (JError (''ReferenceError: '' @ x @ '' is not defined'')), h))
      | Declare_function f \<Rightarrow> (Inr JUndefined, toy_bind h c f (JFunction f))
      | Make_cycle x \<Rightarrow> (Inr JCyclic, toy_bind h c x JCyclic))"

definition toy_engine :: "(toy_heap, nat, jv, toy_script) engine" where
  "toy_engine =
     \<lparr>Context_New = (\<lambda>h. (length h, h @ [[]])),
      String_NewFromUtf8 = (\<lambda>t. Some (JStr t)),
      Utf8Value = (\<lambda>h c v. (Some (toy_show v), h)),
      Global = JGlobalObject,
      Object_Get = (\<lambda>h c obj key. (Inr (toy_get h obj key), h)),
      ToObject = (\<lambda>h c v. (if v = JUndefined then None else Some v, h)),
      ToString = (\<lambda>h c v. (Some (JStr (toy_show v)), h)),
      IsFunction = (\<lambda>h v. case v of JFunction f \<Rightarrow> True | _ \<Rightarrow> False),
      IsArray = (\<lambda>h v. case v of JArr xs \<Rightarrow> True | _ \<Rightarrow> False),
      Function_Call = (\<lambda>h c fn recv args. (toy_call fn recv args, h)),
      Script_Compile =
        (\<lambda>h c src name.
           (case src of
              JStr t \<Rightarrow>
                (case toy_compile t of
                   None \<Rightarrow> Inl (JError ''SyntaxError: Unexpected token'')
                 | Some p \<Rightarrow> Inr p)
            | _ \<Rightarrow> Inl (JError ''SyntaxError: Unexpected token''), h)),
      Script_Run = toy_run\<rparr>"

subsection \<open>Instances used in the concrete runs\<close>

definition toy_v8 :: "(toy_heap, nat) V8" where
  "toy_v8 = V8_ctor toy_engine []"

text \<open>The operating system binds port 49153 and every call succeeds.\<close>

definition os_ok :: os_answers where
  "os_ok = \<lparr>bind_r = 0, getsockname_r = 0, sin_port = (0xC0, 0x01), listen_r = 0\<rparr>"

definition bridge_started :: "(toy_heap, nat) V8 \<times> DbgSrv" where
  "bridge_started = snd (start 0 os_ok (toy_v8, DbgSrv_ctor))"

definition bridge_connected :: "(toy_heap, nat) V8 \<times> DbgSrv" where
  "bridge_connected =
     (case accept 0 0 1 (snd bridge_started) of
        Inl f \<Rightarrow> bridge_started
      | Inr db \<Rightarrow> (fst bridge_started, db))"

text \<open>The connected bridge after a second connection event, for connection 2.\<close>

definition bridge_reconnected :: "(toy_heap, nat) V8 \<times> DbgSrv" where
  "bridge_reconnected =
     (case accept 0 0 2 (snd bridge_connected) of
        Inl f \<Rightarrow> bridge_connected
      | Inr db \<Rightarrow> (fst bridge_connected, db))"

text \<open>
  Answers of an operating system that refuses \<^verbatim>\<open>listen\<close>, and of one that
  refuses \<^verbatim>\<open>bind\<close> (\<open>-98\<close> is \<^verbatim>\<open>UV_EADDRINUSE\<close>).
\<close>

definition bridge_refused :: "(toy_heap, nat) V8 \<times> DbgSrv" where
  "bridge_refused =
     (case accept 0 (- 24) 2 (snd bridge_connected) of
        Inl f \<Rightarrow> bridge_connected
      | Inr db \<Rightarrow> (fst bridge_connected, db))"

definition os_listen_fails :: os_answers where
  "os_listen_fails = \<lparr>bind_r = 0, getsockname_r = 0, sin_port = (0xC0, 0x01), listen_r = - 98\<rparr>"

definition os_bind_fails :: os_answers where
  "os_bind_fails = \<lparr>bind_r = - 98, getsockname_r = 0, sin_port = (0, 0), listen_r = 0\<rparr>"

section \<open>Facts about the concrete instances\<close>

lemma toy_v8_simp:
  "toy_v8 = \<lparr>isolate = [[]], dbg_isolate = Indeterminate, context_persistent = Some 0,
     callback = None, callbackopq = None, message_handler = False, debug_commands = []\<rparr>"
  by (simp add: toy_v8_def V8_ctor_def new_context_def toy_engine_def)

lemma bridge_started_db:
  "snd bridge_started =
     DbgSrv_ctor\<lparr>status := dbgsrv_started, dbgsrv_port := 49153, dbgsrv_serv := Handle_active,
                 dbgsrv_stop := Handle_active, dbgsrv_loop := Loop_init 2,
                 dbgsrv_thread := Thread_running,
                 calls := calls DbgSrv_ctor @
                   [Uv_tcp_init ''dbgsrv_serv_'', Uv_tcp_bind, Uv_tcp_getsockname, Uv_listen,
                    V8_debugger_init, Uv_async_init ''dbgsrv_stop_'',
                    Uv_thread_create ''dbgsrv_thread_'']\<rparr>"
  by (simp add: bridge_started_def start_def os_ok_def ntohs_def Let_def DbgSrv_ctor_def
        uv_handle_start_def)

lemma bridge_started_v8:
  "fst bridge_started = toy_v8\<lparr>dbg_isolate := Isolate, callback := Some Recv_from_debugger,
      callbackopq := Some 0, message_handler := True\<rparr>"
  by (simp add: bridge_started_def start_def os_ok_def Let_def debugger_init_def toy_v8_simp)

lemma bridge_connected_db:
  "snd bridge_connected =
     (snd bridge_started)\<lparr>status := dbgsrv_connected, dbgsrv_clnt := Handle_active,
        dbgsrv_send := Handle_active, dbgsrv_loop := Loop_init 4, clnt_peer := Some 1,
        calls := calls (snd bridge_started) @
          [Uv_tcp_init ''dbgsrv_clnt_'', Uv_accept, Uv_async_init ''dbgsrv_send_'',
           Uv_read_start ''dbgsrv_clnt_'']\<rparr>"
  by (simp add: bridge_connected_def accept_def Let_def bridge_started_db uv_handle_start_def)

lemma bridge_connected_v8: "fst bridge_connected = fst bridge_started"
  by (simp add: bridge_connected_def accept_def Let_def)

lemma bridge_connected_writes: "socket_writes (calls (snd bridge_connected)) = []"
  by (simp add: bridge_connected_db bridge_started_db DbgSrv_ctor_def)


section \<open>Outbound messages reach the socket in the order the engine produced them\<close>

lemma socket_writes_append: "socket_writes (a @ b) = socket_writes a @ socket_writes b"
  by (induction a rule: socket_writes.induct) auto

lemma socket_writes_map: "socket_writes (map (\<lambda>m. Uv_write (frame m)) ms) = map frame ms"
  by (induction ms) auto

lemma send_to_socket_drain:
  "dbgsrv_clnt db = Handle_active \<Longrightarrow>
   send_to_socket db =
     Inr (db\<lparr>calls := calls db @ map (\<lambda>m. Uv_write (frame m)) (rev (msg_queue db)),
             msg_queue := []\<rparr>)"
proof (induction db rule: send_to_socket.induct)
  case (1 db)
  show ?case
  proof (cases "msg_queue db = []")
    case True
    then show ?thesis by (simp add: send_to_socket.simps[of db])
  next
    case False
    then obtain ms m where q: "msg_queue db = ms @ [m]"
      by (metis append_butlast_last_id)
    have w: "uv_write ''dbgsrv_clnt_'' (dbgsrv_clnt db)
               (uv_buf_init (last (msg_queue db)) (length (last (msg_queue db)) mod 2 ^ 32))
             = Inr [Uv_write (frame m)]"
      using "1.prems" q by (simp add: uv_write_def frame_def)
    have "send_to_socket db =
            send_to_socket (db\<lparr>calls := calls db @ [Uv_write (frame m)], msg_queue := ms\<rparr>)"
      using False w q by (subst send_to_socket.simps) simp
    also have "\<dots> = Inr (db\<lparr>calls := calls db @ map (\<lambda>m. Uv_write (frame m)) (rev (msg_queue db)),
             msg_queue := []\<rparr>)"
      using "1.IH"[OF False w] "1.prems" q by simp
    finally show ?thesis .
  qed
qed

lemma recv_from_debugger_push:
  "dbgsrv_send db = Handle_active \<Longrightarrow>
   recv_from_debugger m db =
     Inr (db\<lparr>msg_queue := m # msg_queue db,
             calls := calls db @ [Uv_async_send ''dbgsrv_send_'']\<rparr>)"
  by (simp add: recv_from_debugger_def uv_async_send_def Let_def)

lemma handler_attached:
  "callback v = Some Recv_from_debugger \<Longrightarrow> dbgsrv_send db = Handle_active \<Longrightarrow>
   debugger_message_handler json (v, db) =
     Inr (v, db\<lparr>msg_queue := c_str json # msg_queue db,
                calls := calls db @ [Uv_async_send ''dbgsrv_send_'']\<rparr>)"
  by (simp add: debugger_message_handler_def recv_from_debugger_push)

lemma relay_invariant:
  "callback v = Some Recv_from_debugger \<Longrightarrow>
   dbgsrv_clnt db = Handle_active \<Longrightarrow> dbgsrv_send db = Handle_active \<Longrightarrow>
   \<exists>db'. relay evs (v, db) = Inr (v, db') \<and> dbgsrv_clnt db' = Handle_active \<and>
         dbgsrv_send db' = Handle_active \<and>
         socket_writes (calls db') @ map frame (rev (msg_queue db')) =
         socket_writes (calls db) @ map frame (rev (msg_queue db)) @
           map (\<lambda>json. frame (c_str json)) (produced evs)"
proof (induction evs arbitrary: db)
  case Nil
  then show ?case by simp
next
  case (Cons e es)
  show ?case
  proof (cases e)
    case (Engine_message json)
    let ?db1 = "db\<lparr>msg_queue := c_str json # msg_queue db,
                    calls := calls db @ [Uv_async_send ''dbgsrv_send_'']\<rparr>"
    have s: "relay_step e (v, db) = Inr (v, ?db1)"
      using Cons.prems Engine_message by (simp add: handler_attached)
    from Cons.IH[of ?db1] Cons.prems obtain db' where
      "relay es (v, ?db1) = Inr (v, db')" "dbgsrv_clnt db' = Handle_active"
      "dbgsrv_send db' = Handle_active"
      "socket_writes (calls db') @ map frame (rev (msg_queue db')) =
         socket_writes (calls ?db1) @ map frame (rev (msg_queue ?db1)) @
           map (\<lambda>json. frame (c_str json)) (produced es)"
      by auto
    then show ?thesis using s Engine_message by (simp add: socket_writes_append)
  next
    case Send_wake
    let ?db1 = "db\<lparr>calls := calls db @ map (\<lambda>m. Uv_write (frame m)) (rev (msg_queue db)),
                    msg_queue := []\<rparr>"
    have s: "relay_step e (v, db) = Inr (v, ?db1)"
      using Cons.prems Send_wake by (simp add: send_to_socket_drain)
    from Cons.IH[of ?db1] Cons.prems obtain db' where
      "relay es (v, ?db1) = Inr (v, db')" "dbgsrv_clnt db' = Handle_active"
      "dbgsrv_send db' = Handle_active"
      "socket_writes (calls db') @ map frame (rev (msg_queue db')) =
         socket_writes (calls ?db1) @ map frame (rev (msg_queue ?db1)) @
           map (\<lambda>json. frame (c_str json)) (produced es)"
      by auto
    then show ?thesis using s Send_wake
      by (simp add: socket_writes_append socket_writes_map rev_map)
  qed
qed

lemma frame_short: "length m < 2 ^ 32 \<Longrightarrow> frame m = m"
  by (simp add: frame_def uv_buf_init_def)

lemma c_str_no_NUL: "CHR 0x00 \<notin> set m \<Longrightarrow> c_str m = m"
  by (auto simp add: c_str_def takeWhile_eq_all_conv)

text \<open>
  Claim C1. Let \<^verbatim>\<open>recv_from_debugger_\<close> be the registered callback and let the
  client handle and the send wake-up handle be active (the bridge is connected). After
  any sequence \<open>evs\<close> of messages from the engine and firings of the send wake-up, each
  handler run to completion, the next firing of \<^verbatim>\<open>send_to_socket_\<close> empties the
  queue and issues one \<^verbatim>\<open>uv_write\<close> per queued message, oldest first; the writes
  issued since the start are then the buffers of the messages that were queued at the
  start, followed by the buffers of the messages the engine produced, in the order it
  produced them. The text the callback receives is the message up to its first NUL
  byte, which is the message itself when it has none (\<open>c_str_no_NUL\<close>), and the buffer
  of a text is the text itself when it is shorter than \<open>2 ^ 32\<close> bytes
  (\<open>frame_short\<close>).
\<close>

theorem relay_fifo:
  assumes "callback v = Some Recv_from_debugger"
    and "dbgsrv_clnt db = Handle_active" and "dbgsrv_send db = Handle_active"
  shows "\<exists>db' db''. relay evs (v, db) = Inr (v, db') \<and> send_to_socket db' = Inr db'' \<and>
           msg_queue db'' = [] \<and>
           calls db'' = calls db' @ map (\<lambda>m. Uv_write (frame m)) (rev (msg_queue db')) \<and>
           socket_writes (calls db'') =
             socket_writes (calls db) @ map frame (rev (msg_queue db)) @
               map (\<lambda>json. frame (c_str json)) (produced evs)"
proof -
  from relay_invariant[OF assms, of evs] obtain db' where
    r: "relay evs (v, db) = Inr (v, db')" and c: "dbgsrv_clnt db' = Handle_active"
    and i: "socket_writes (calls db') @ map frame (rev (msg_queue db')) =
         socket_writes (calls db) @ map frame (rev (msg_queue db)) @
           map (\<lambda>json. frame (c_str json)) (produced evs)"
    by blast
  let ?db2 = "db'\<lparr>calls := calls db' @ map (\<lambda>m. Uv_write (frame m)) (rev (msg_queue db')),
                   msg_queue := []\<rparr>"
  have "send_to_socket db' = Inr ?db2" using c by (rule send_to_socket_drain)
  moreover have "socket_writes (calls ?db2) =
             socket_writes (calls db) @ map frame (rev (msg_queue db)) @
               map (\<lambda>json. frame (c_str json)) (produced evs)"
    using i by (simp add: socket_writes_append socket_writes_map)
  ultimately show ?thesis using r by auto
qed

theorem relay_fifo_witness:
  "callback (fst bridge_connected) = Some Recv_from_debugger \<and>
   dbgsrv_clnt (snd bridge_connected) = Handle_active \<and>
   dbgsrv_send (snd bridge_connected) = Handle_active \<and>
   msg_queue (snd bridge_connected) = [] \<and>
   (\<exists>db' db''.
      relay [Engine_message ''m1'', Engine_message ''m2'', Send_wake, Engine_message ''m3'']
        bridge_connected = Inr (fst bridge_connected, db') \<and>
      send_to_socket db' = Inr db'' \<and> msg_queue db'' = [] \<and>
      socket_writes (calls db'') = [''m1'', ''m2'', ''m3''])"
proof -
  have v: "callback (fst bridge_connected) = Some Recv_from_debugger"
    by (simp add: bridge_connected_v8 bridge_started_v8)
  have c: "dbgsrv_clnt (snd bridge_connected) = Handle_active"
    by (simp add: bridge_connected_db)
  have s: "dbgsrv_send (snd bridge_connected) = Handle_active"
    by (simp add: bridge_connected_db)
  have q: "msg_queue (snd bridge_connected) = []"
    by (simp add: bridge_connected_db bridge_started_db DbgSrv_ctor_def)
  from relay_fifo[OF v c s,
      of "[Engine_message ''m1'', Engine_message ''m2'', Send_wake, Engine_message ''m3'']"]
  show ?thesis using v c s q
    by (simp add: bridge_connected_writes frame_def uv_buf_init_def c_str_def) blast
qed

section \<open>A read error on the client socket\<close>

text \<open>
  Claim C9. When the read callback of a connected bridge reports an error
  (\<open>nread < 0\<close>), \<^verbatim>\<open>recv_from_socket_\<close> closes the send wake-up handle and
  the client handle, sets the status to \<open>dbgsrv_started\<close>, sends nothing to the
  engine and leaves the listening handle, the stop handle and the port as they were; a
  later connection event is accepted and attaches the new client.
\<close>

theorem read_error_returns_to_started:
  assumes "nread < 0" and "status db = dbgsrv_connected"
    and "dbgsrv_send db = Handle_active" and "dbgsrv_clnt db = Handle_active"
  shows "\<exists>db'. recv_from_socket E nread base (v, db) = Inr (v, db') \<and>
           calls db' = calls db @ [Uv_close ''dbgsrv_send_'', Uv_close ''dbgsrv_clnt_''] \<and>
           dbgsrv_send db' = Handle_closing \<and> dbgsrv_clnt db' = Handle_closing \<and>
           status db' = dbgsrv_started \<and>
           dbgsrv_serv db' = dbgsrv_serv db \<and> dbgsrv_stop db' = dbgsrv_stop db \<and>
           dbgsrv_port db' = dbgsrv_port db \<and>
           (\<exists>db''. accept 0 0 conn db' = Inr db'' \<and> status db'' = dbgsrv_connected \<and>
                   clnt_peer db'' = Some conn \<and> dbgsrv_clnt db'' = Handle_active \<and>
                   dbgsrv_send db'' = Handle_active)"
  using assms by (simp add: recv_from_socket_def uv_close_def accept_def Let_def)

theorem read_error_returns_to_started_witness:
  "(-4095::int) < 0 \<and> status (snd bridge_connected) = dbgsrv_connected \<and>
   dbgsrv_send (snd bridge_connected) = Handle_active \<and>
   dbgsrv_clnt (snd bridge_connected) = Handle_active \<and>
   dbgsrv_serv (snd bridge_connected) = Handle_active \<and>
   (\<exists>db'. recv_from_socket toy_engine (-4095) '''' bridge_connected
            = Inr (fst bridge_connected, db') \<and>
          status db' = dbgsrv_started \<and> dbgsrv_serv db' = Handle_active \<and>
          dbgsrv_send db' = Handle_closing \<and> dbgsrv_clnt db' = Handle_closing \<and>
          (\<exists>db''. accept 0 0 2 db' = Inr db'' \<and> status db'' = dbgsrv_connected \<and>
                  clnt_peer db'' = Some 2))"
proof -
  have a: "(-4095::int) < 0" by simp
  have b: "status (snd bridge_connected) = dbgsrv_connected"
    and c: "dbgsrv_send (snd bridge_connected) = Handle_active"
    and d: "dbgsrv_clnt (snd bridge_connected) = Handle_active"
    and e: "dbgsrv_serv (snd bridge_connected) = Handle_active"
    by (simp_all add: bridge_connected_db bridge_started_db)
  from read_error_returns_to_started[OF a b c d, of toy_engine "''''" "fst bridge_connected" 2]
  show ?thesis using b c d e by auto
qed

section \<open>The port that \<^verbatim>\<open>get_port\<close> reports\<close>

lemma ntohs_nonzero: "ntohs p \<noteq> 0 \<longleftrightarrow> p \<noteq> (0, 0)"
proof (cases p)
  case (Pair hi lo)
  have "0 \<le> uint hi" and "0 \<le> uint lo" by simp_all
  then have "uint hi * 256 + uint lo = 0 \<longleftrightarrow> uint hi = 0 \<and> uint lo = 0"
    by arith
  then show ?thesis using Pair by (simp add: ntohs_def uint_0_iff)
qed

text \<open>
  Claim C8. \<^verbatim>\<open>get_port()\<close> is to return the port the bridge is listening on, and
  0 when it is not listening, in particular whenever \<^verbatim>\<open>start\<close> failed; the
  header describes it as the port \<^emph>\<open>the system is currently listening from\<close>.
  \<^verbatim>\<open>start\<close> assigns \<^verbatim>\<open>dbgsrv_port_\<close> before it calls \<^verbatim>\<open>uv_listen\<close>
  and does not reset it when \<^verbatim>\<open>uv_listen\<close> fails: on a new bridge,
  \<^verbatim>\<open>start(5858)\<close> with a successful bind and a failing listen returns false and
  leaves the status \<open>dbgsrv_offline\<close>, and \<^verbatim>\<open>get_port()\<close> is 5858 although
  nothing listens.
\<close>

theorem get_port_after_failed_listen:
  "get_port DbgSrv_ctor = 0 \<and>
   fst (start 5858 os_listen_fails (toy_v8, DbgSrv_ctor)) = False \<and>
   status (snd (snd (start 5858 os_listen_fails (toy_v8, DbgSrv_ctor)))) = dbgsrv_offline \<and>
   get_port (snd (snd (start 5858 os_listen_fails (toy_v8, DbgSrv_ctor)))) = 5858"
  by (simp add: start_def os_listen_fails_def get_port_def DbgSrv_ctor_def Let_def)

text \<open>
  The same holds for every request and every bridge: when the bind succeeds (and, for
  port 0, \<^verbatim>\<open>uv_tcp_getsockname\<close> too) and \<^verbatim>\<open>uv_listen\<close> fails,
  \<^verbatim>\<open>start\<close> returns false, the status is unchanged, and \<^verbatim>\<open>get_port()\<close>
  is the requested port, or for port 0 the port the system reported.
\<close>

lemma start_listen_failure_keeps_port:
  assumes "bind_r os = 0" and "port = 0 \<longrightarrow> getsockname_r os = 0" and "listen_r os \<noteq> 0"
  shows "\<not> fst (start port os (v, db)) \<and>
         status (snd (snd (start port os (v, db)))) = status db \<and>
         get_port (snd (snd (start port os (v, db)))) =
           (if port = 0 then ntohs (sin_port os) else port)"
  using assms by (simp add: start_def get_port_def Let_def)

text \<open>
  On the other paths of \<^verbatim>\<open>start\<close> the port member is what the claim expects: 0
  on a newly constructed bridge; after a successful \<^verbatim>\<open>start(0)\<close> the port that
  \<^verbatim>\<open>uv_tcp_getsockname\<close> reported after the bind, which is nonzero exactly when
  the reported port is; after a successful \<^verbatim>\<open>start(port)\<close> with a nonzero
  \<open>port\<close>, that port; and when \<^verbatim>\<open>start\<close> fails at the bind or at
  \<^verbatim>\<open>uv_tcp_getsockname\<close> the member keeps its value, so it is still 0 on a
  new bridge.
\<close>

theorem get_port_recorded:
  "get_port DbgSrv_ctor = 0 \<and>
   (bind_r os = 0 \<and> getsockname_r os = 0 \<and> listen_r os = 0 \<longrightarrow>
      fst (start 0 os (v, db)) \<and>
      get_port (snd (snd (start 0 os (v, db)))) = ntohs (sin_port os) \<and>
      (get_port (snd (snd (start 0 os (v, db)))) \<noteq> 0 \<longleftrightarrow> sin_port os \<noteq> (0, 0))) \<and>
   (port \<noteq> 0 \<and> bind_r os = 0 \<and> listen_r os = 0 \<longrightarrow>
      fst (start port os (v, db)) \<and> get_port (snd (snd (start port os (v, db)))) = port) \<and>
   (bind_r os \<noteq> 0 \<or> (port = 0 \<and> getsockname_r os \<noteq> 0) \<longrightarrow>
      \<not> fst (start port os (v, db)) \<and>
      get_port (snd (snd (start port os (v, db)))) = get_port db \<and>
      get_port (snd (snd (start port os (v, DbgSrv_ctor)))) = 0)"
  using ntohs_nonzero[of "sin_port os"]
  by (auto simp add: start_def get_port_def Let_def DbgSrv_ctor_def)

theorem get_port_recorded_witness:
  "get_port DbgSrv_ctor = 0 \<and>
   fst (start 0 os_ok (toy_v8, DbgSrv_ctor)) \<and>
   get_port (snd (snd (start 0 os_ok (toy_v8, DbgSrv_ctor)))) = 49153 \<and>
   fst (start 5858 os_ok (toy_v8, DbgSrv_ctor)) \<and>
   get_port (snd (snd (start 5858 os_ok (toy_v8, DbgSrv_ctor)))) = 5858 \<and>
   \<not> fst (start 0 os_bind_fails (toy_v8, DbgSrv_ctor)) \<and>
   get_port (snd (snd (start 0 os_bind_fails (toy_v8, DbgSrv_ctor)))) = 0"
proof -
  have a: "bind_r os_ok = 0 \<and> getsockname_r os_ok = 0 \<and> listen_r os_ok = 0"
    and b: "(5858::int) \<noteq> 0 \<and> bind_r os_ok = 0 \<and> listen_r os_ok = 0"
    and c: "bind_r os_bind_fails \<noteq> 0 \<or> ((0::int) = 0 \<and> getsockname_r os_bind_fails \<noteq> 0)"
    and d: "ntohs (sin_port os_ok) = 49153"
    by (simp_all add: os_ok_def os_bind_fails_def ntohs_def)
  from get_port_recorded[where os = os_ok and v = toy_v8 and db = DbgSrv_ctor and port = 5858]
       get_port_recorded[where os = os_bind_fails and v = toy_v8 and db = DbgSrv_ctor and port = 0]
  show ?thesis using a b c d by simp
qed

section \<open>Destruction\<close>

lemma dtor_needs_stop_handle:
  "dbgsrv_stop db = Handle_uninit \<Longrightarrow> DbgSrv_dtor (v, db) = Inl (Uninitialized ''dbgsrv_stop_'')"
  by (simp add: DbgSrv_dtor_def uv_async_send_def Let_def)

lemma dtor_needs_thread:
  "dbgsrv_stop db \<noteq> Handle_uninit \<Longrightarrow> dbgsrv_thread db = Thread_uninit \<Longrightarrow>
   DbgSrv_dtor (v, db) = Inl (Uninitialized ''dbgsrv_thread_'')"
  by (cases "dbgsrv_stop db") (simp_all add: DbgSrv_dtor_def uv_async_send_def uv_thread_join_def Let_def)

lemma dtor_returns_only_if_initialised:
  "DbgSrv_dtor (v, db) = Inr w' \<Longrightarrow>
   dbgsrv_stop db \<noteq> Handle_uninit \<and> dbgsrv_thread db = Thread_running"
  by (cases "dbgsrv_stop db"; cases "dbgsrv_thread db")
     (simp_all add: DbgSrv_dtor_def uv_async_send_def uv_thread_join_def Let_def)

lemma start_failure_frame:
  "\<not> fst (start port os (v, db)) \<Longrightarrow>
   dbgsrv_stop (snd (snd (start port os (v, db)))) = dbgsrv_stop db \<and>
   dbgsrv_thread (snd (snd (start port os (v, db)))) = dbgsrv_thread db \<and>
   status (snd (snd (start port os (v, db)))) = status db"
  by (auto simp add: start_def Let_def split: if_splits)

lemma start_success_state:
  "fst (start port os (v, db)) \<Longrightarrow>
   dbgsrv_stop (snd (snd (start port os (v, db)))) = Handle_active \<and>
   dbgsrv_thread (snd (snd (start port os (v, db)))) = Thread_running \<and>
   dbgsrv_serv (snd (snd (start port os (v, db)))) = Handle_active \<and>
   status (snd (snd (start port os (v, db)))) = dbgsrv_started \<and>
   dbgproc_proc (snd (snd (start port os (v, db)))) = dbgproc_proc db \<and>
   dbgproc_stop (snd (snd (start port os (v, db)))) = dbgproc_stop db \<and>
   dbgproc_thread (snd (snd (start port os (v, db)))) = dbgproc_thread db \<and>
   dbgproc_loop (snd (snd (start port os (v, db)))) = dbgproc_loop db \<and>
   dbgsrv_loop (snd (snd (start port os (v, db)))) =
     uv_handle_start (uv_handle_start (dbgsrv_loop db))"
  by (auto simp add: start_def Let_def split: if_splits)

lemma dtor_started_returns:
  assumes "status db = dbgsrv_started" "dbgsrv_serv db = Handle_active"
    "dbgsrv_stop db = Handle_active" "dbgsrv_thread db = Thread_running"
    "dbgproc_proc db = Handle_active" "dbgproc_stop db = Handle_active"
    "dbgproc_thread db = Thread_running"
    "dbgsrv_loop db = Loop_init 2" "dbgproc_loop db = Loop_init 2"
  shows "\<exists>w'. DbgSrv_dtor (v, db) = Inr w'"
  using assms
  by (simp add: DbgSrv_dtor_def uv_async_send_def uv_thread_join_def Let_def
      shutdown_def uv_close_def dbgproc_do_stop_def uv_handle_stop_def uv_loop_alive_def)

text \<open>
  Claim C10. The constructor initialises the handles and the thread of the processing
  loop only; \<^verbatim>\<open>dbgsrv_stop_\<close> and \<^verbatim>\<open>dbgsrv_thread_\<close> are initialised by
  a \<^verbatim>\<open>start\<close> that returns true and left alone by one that returns false. The
  destructor signals \<^verbatim>\<open>dbgsrv_stop_\<close> and joins \<^verbatim>\<open>dbgsrv_thread_\<close>
  without a test, so it returns only if both were initialised; it uses
  \<^verbatim>\<open>dbgsrv_stop_\<close> when that is uninitialised, and \<^verbatim>\<open>dbgsrv_thread_\<close>
  when only that is. On a bridge that was constructed and never started, or whose
  \<^verbatim>\<open>start\<close> failed, it uses the uninitialised \<^verbatim>\<open>dbgsrv_stop_\<close>; after a
  \<^verbatim>\<open>start\<close> that returned true it runs to its end.
\<close>

theorem destruction_requires_started:
  "dbgsrv_stop DbgSrv_ctor = Handle_uninit \<and> dbgsrv_thread DbgSrv_ctor = Thread_uninit \<and>
   dbgproc_proc DbgSrv_ctor = Handle_active \<and> dbgproc_stop DbgSrv_ctor = Handle_active \<and>
   dbgproc_thread DbgSrv_ctor = Thread_running \<and>
   (\<not> fst (start port os (v, db)) \<longrightarrow>
      dbgsrv_stop (snd (snd (start port os (v, db)))) = dbgsrv_stop db \<and>
      dbgsrv_thread (snd (snd (start port os (v, db)))) = dbgsrv_thread db) \<and>
   (fst (start port os (v, db)) \<longrightarrow>
      dbgsrv_stop (snd (snd (start port os (v, db)))) = Handle_active \<and>
      dbgsrv_thread (snd (snd (start port os (v, db)))) = Thread_running) \<and>
   (\<forall>w'. DbgSrv_dtor (v, db) = Inr w' \<longrightarrow>
      dbgsrv_stop db \<noteq> Handle_uninit \<and> dbgsrv_thread db = Thread_running) \<and>
   (dbgsrv_stop db = Handle_uninit \<longrightarrow>
      DbgSrv_dtor (v, db) = Inl (Uninitialized ''dbgsrv_stop_'')) \<and>
   (dbgsrv_stop db \<noteq> Handle_uninit \<and> dbgsrv_thread db = Thread_uninit \<longrightarrow>
      DbgSrv_dtor (v, db) = Inl (Uninitialized ''dbgsrv_thread_'')) \<and>
   DbgSrv_dtor (v, DbgSrv_ctor) = Inl (Uninitialized ''dbgsrv_stop_'') \<and>
   (\<not> fst (start port os (v, DbgSrv_ctor)) \<longrightarrow>
      DbgSrv_dtor (snd (start port os (v, DbgSrv_ctor))) = Inl (Uninitialized ''dbgsrv_stop_'')) \<and>
   (fst (start port os (v, DbgSrv_ctor)) \<longrightarrow>
      (\<exists>w'. DbgSrv_dtor (snd (start port os (v, DbgSrv_ctor))) = Inr w'))"
proof -
  have ctor: "dbgsrv_stop DbgSrv_ctor = Handle_uninit" "dbgsrv_thread DbgSrv_ctor = Thread_uninit"
    "dbgproc_proc DbgSrv_ctor = Handle_active" "dbgproc_stop DbgSrv_ctor = Handle_active"
    "dbgproc_thread DbgSrv_ctor = Thread_running"
    by (simp_all add: DbgSrv_ctor_def)
  have loops: "dbgsrv_loop DbgSrv_ctor = Loop_init 0" "dbgproc_loop DbgSrv_ctor = Loop_init 2"
    by (simp_all add: DbgSrv_ctor_def)
  have fresh: "DbgSrv_dtor (v, DbgSrv_ctor) = Inl (Uninitialized ''dbgsrv_stop_'')"
    by (rule dtor_needs_stop_handle) (rule ctor)
  have failed: "DbgSrv_dtor (snd (start port os (v, DbgSrv_ctor))) = Inl (Uninitialized ''dbgsrv_stop_'')"
    if f: "\<not> fst (start port os (v, DbgSrv_ctor))"
  proof -
    have "dbgsrv_stop (snd (snd (start port os (v, DbgSrv_ctor)))) = Handle_uninit"
      using start_failure_frame[OF f] ctor by simp
    from dtor_needs_stop_handle[OF this, of "fst (snd (start port os (v, DbgSrv_ctor)))"]
    show ?thesis by simp
  qed
  have ok: "\<exists>w'. DbgSrv_dtor (snd (start port os (v, DbgSrv_ctor))) = Inr w'"
    if t: "fst (start port os (v, DbgSrv_ctor))"
  proof -
    let ?db = "snd (snd (start port os (v, DbgSrv_ctor)))"
    from start_success_state[OF t] ctor loops
    have "\<exists>w'. DbgSrv_dtor (fst (snd (start port os (v, DbgSrv_ctor))), ?db) = Inr w'"
      by (intro dtor_started_returns) (simp_all add: uv_handle_start_def)
    then show ?thesis by simp
  qed
  show ?thesis
    using ctor fresh failed ok start_failure_frame[of port os v db]
      start_success_state[of port os v db] dtor_returns_only_if_initialised[of v db]
      dtor_needs_stop_handle[of db v] dtor_needs_thread[of db v]
    by blast
qed

theorem destruction_requires_started_witness:
  "DbgSrv_dtor (toy_v8, DbgSrv_ctor) = Inl (Uninitialized ''dbgsrv_stop_'') \<and>
   \<not> fst (start 0 os_bind_fails (toy_v8, DbgSrv_ctor)) \<and>
   DbgSrv_dtor (snd (start 0 os_bind_fails (toy_v8, DbgSrv_ctor)))
     = Inl (Uninitialized ''dbgsrv_stop_'') \<and>
   fst (start 0 os_ok (toy_v8, DbgSrv_ctor)) \<and>
   (\<exists>w'. DbgSrv_dtor (snd (start 0 os_ok (toy_v8, DbgSrv_ctor))) = Inr w')"
proof -
  have a: "\<not> fst (start 0 os_bind_fails (toy_v8, DbgSrv_ctor))"
    by (simp add: start_def os_bind_fails_def Let_def)
  have b: "fst (start 0 os_ok (toy_v8, DbgSrv_ctor))"
    by (simp add: start_def os_ok_def Let_def)
  from destruction_requires_started[where v = toy_v8 and port = 0 and os = os_bind_fails
         and db = DbgSrv_ctor]
       destruction_requires_started[where v = toy_v8 and port = 0 and os = os_ok
         and db = DbgSrv_ctor]
  show ?thesis using a b by blast
qed

lemma handler_detached:
  "debugger_message_handler json (debugger_stop v, b) = Inr (debugger_stop v, b)"
  by (simp add: debugger_message_handler_def debugger_stop_def)

text \<open>
  The destructor on a bridge that is started, or connected after one accepted
  connection on the started bridge: the network loop counts the listening handle and
  the stop handle, and the send handle and the client handle when connected, and
  every counted handle is closed once. The destructor runs to its end and makes its
  calls in this order: \<^verbatim>\<open>v8_.debugger_stop()\<close>; the wake-up of the network
  loop's stop handle, the closes that \<^verbatim>\<open>shutdown_\<close> performs on the network
  thread (client handles first when connected), the join of the network thread and the
  close of its loop; then the wake-up of the processing loop's stop handle, the closes
  of \<^verbatim>\<open>dbgproc_do_stop_\<close>, the join of the processing thread and the close of
  its loop. From the first call on the \<^verbatim>\<open>_V8\<close> instance has no callback and no
  message handler, and a message delivered to \<^verbatim>\<open>debugger_message_handler\<close>
  changes nothing in the bridge.
\<close>

lemma destructor_sequence:
  assumes "status db = dbgsrv_started \<or> status db = dbgsrv_connected"
    and "dbgsrv_serv db = Handle_active" and "dbgsrv_stop db = Handle_active"
    and "dbgsrv_thread db = Thread_running"
    and "dbgproc_proc db = Handle_active" and "dbgproc_stop db = Handle_active"
    and "dbgproc_thread db = Thread_running"
    and "status db = dbgsrv_connected \<longrightarrow>
           dbgsrv_send db = Handle_active \<and> dbgsrv_clnt db = Handle_active"
    and "dbgsrv_loop db = Loop_init (if status db = dbgsrv_connected then 4 else 2)"
    and "dbgproc_loop db = Loop_init 2"
  shows "\<exists>db'. DbgSrv_dtor (v, db) = Inr (debugger_stop v, db') \<and>
           callback (debugger_stop v) = None \<and> \<not> message_handler (debugger_stop v) \<and>
           (\<forall>json b. debugger_message_handler json (debugger_stop v, b)
                       = Inr (debugger_stop v, b)) \<and>
           calls db' = calls db @
             [V8_debugger_stop, Uv_async_send ''dbgsrv_stop_''] @
             (if status db = dbgsrv_connected
              then [Uv_close ''dbgsrv_send_'', Uv_close ''dbgsrv_clnt_''] else []) @
             [Uv_close ''dbgsrv_serv_'', Uv_close ''dbgsrv_stop_'',
              Uv_thread_join ''dbgsrv_thread_'', Uv_loop_close ''dbgsrv_loop_'',
              Uv_async_send ''dbgproc_stop_'',
              Uv_close ''dbgproc_proc_'', Uv_close ''dbgproc_stop_'',
              Uv_thread_join ''dbgproc_thread_'', Uv_loop_close ''dbgproc_loop_''] \<and>
           status db' = dbgsrv_offline \<and>
           dbgsrv_thread db' = Thread_joined \<and> dbgsrv_loop db' = Loop_closed \<and>
           dbgproc_thread db' = Thread_joined \<and> dbgproc_loop db' = Loop_closed"
proof (cases "status db = dbgsrv_connected")
  case True
  with assms show ?thesis
    by (simp add: DbgSrv_dtor_def uv_async_send_def uv_thread_join_def Let_def
        shutdown_def uv_close_def dbgproc_do_stop_def handler_detached
        uv_handle_stop_def uv_loop_alive_def)
      (simp add: debugger_stop_def)
next
  case False
  with assms have "status db = dbgsrv_started" by simp
  with assms show ?thesis
    by (simp add: DbgSrv_dtor_def uv_async_send_def uv_thread_join_def Let_def
        shutdown_def uv_close_def dbgproc_do_stop_def handler_detached
        uv_handle_stop_def uv_loop_alive_def)
      (simp add: debugger_stop_def)
qed

text \<open>The started and the connected bridge of the concrete runs are such bridges.\<close>

lemma destructor_sequence_on_fixtures:
  "status (snd bridge_connected) = dbgsrv_connected \<and>
   callback (fst bridge_connected) = Some Recv_from_debugger \<and>
   (\<exists>db'. DbgSrv_dtor bridge_connected = Inr (debugger_stop (fst bridge_connected), db') \<and>
      callback (debugger_stop (fst bridge_connected)) = None \<and>
      calls db' = calls (snd bridge_connected) @
        [V8_debugger_stop, Uv_async_send ''dbgsrv_stop_'',
         Uv_close ''dbgsrv_send_'', Uv_close ''dbgsrv_clnt_'',
         Uv_close ''dbgsrv_serv_'', Uv_close ''dbgsrv_stop_'',
         Uv_thread_join ''dbgsrv_thread_'', Uv_loop_close ''dbgsrv_loop_'',
         Uv_async_send ''dbgproc_stop_'',
         Uv_close ''dbgproc_proc_'', Uv_close ''dbgproc_stop_'',
         Uv_thread_join ''dbgproc_thread_'', Uv_loop_close ''dbgproc_loop_''] \<and>
      status db' = dbgsrv_offline) \<and>
   status (snd bridge_started) = dbgsrv_started \<and>
   (\<exists>db'. DbgSrv_dtor bridge_started = Inr (debugger_stop (fst bridge_started), db') \<and>
      calls db' = calls (snd bridge_started) @
        [V8_debugger_stop, Uv_async_send ''dbgsrv_stop_'',
         Uv_close ''dbgsrv_serv_'', Uv_close ''dbgsrv_stop_'',
         Uv_thread_join ''dbgsrv_thread_'', Uv_loop_close ''dbgsrv_loop_'',
         Uv_async_send ''dbgproc_stop_'',
         Uv_close ''dbgproc_proc_'', Uv_close ''dbgproc_stop_'',
         Uv_thread_join ''dbgproc_thread_'', Uv_loop_close ''dbgproc_loop_''] \<and>
      status db' = dbgsrv_offline)"
proof -
  have a: "status (snd bridge_connected) = dbgsrv_started \<or>
           status (snd bridge_connected) = dbgsrv_connected"
    and b: "dbgsrv_serv (snd bridge_connected) = Handle_active"
    and c: "dbgsrv_stop (snd bridge_connected) = Handle_active"
    and d: "dbgsrv_thread (snd bridge_connected) = Thread_running"
    and e: "dbgproc_proc (snd bridge_connected) = Handle_active"
    and f: "dbgproc_stop (snd bridge_connected) = Handle_active"
    and g: "dbgproc_thread (snd bridge_connected) = Thread_running"
    and h: "status (snd bridge_connected) = dbgsrv_connected \<longrightarrow>
           dbgsrv_send (snd bridge_connected) = Handle_active \<and>
           dbgsrv_clnt (snd bridge_connected) = Handle_active"
    and i: "status (snd bridge_connected) = dbgsrv_connected"
    and l: "dbgsrv_loop (snd bridge_connected) =
              Loop_init (if status (snd bridge_connected) = dbgsrv_connected then 4 else 2)"
    and m: "dbgproc_loop (snd bridge_connected) = Loop_init 2"
    by (simp_all add: bridge_connected_db bridge_started_db DbgSrv_ctor_def)
  have j: "callback (fst bridge_connected) = Some Recv_from_debugger"
    by (simp add: bridge_connected_v8 bridge_started_v8)
  have a': "status (snd bridge_started) = dbgsrv_started \<or>
            status (snd bridge_started) = dbgsrv_connected"
    and b': "dbgsrv_serv (snd bridge_started) = Handle_active"
    and c': "dbgsrv_stop (snd bridge_started) = Handle_active"
    and d': "dbgsrv_thread (snd bridge_started) = Thread_running"
    and e': "dbgproc_proc (snd bridge_started) = Handle_active"
    and f': "dbgproc_stop (snd bridge_started) = Handle_active"
    and g': "dbgproc_thread (snd bridge_started) = Thread_running"
    and h': "status (snd bridge_started) = dbgsrv_connected \<longrightarrow>
           dbgsrv_send (snd bridge_started) = Handle_active \<and>
           dbgsrv_clnt (snd bridge_started) = Handle_active"
    and i': "status (snd bridge_started) = dbgsrv_started"
    and l': "dbgsrv_loop (snd bridge_started) =
              Loop_init (if status (snd bridge_started) = dbgsrv_connected then 4 else 2)"
    and m': "dbgproc_loop (snd bridge_started) = Loop_init 2"
    by (simp_all add: bridge_started_db DbgSrv_ctor_def)
  from destructor_sequence[OF a b c d e f g h l m, of "fst bridge_connected"] i j
  have k: "\<exists>db'. DbgSrv_dtor bridge_connected = Inr (debugger_stop (fst bridge_connected), db') \<and>
      callback (debugger_stop (fst bridge_connected)) = None \<and>
      calls db' = calls (snd bridge_connected) @
        [V8_debugger_stop, Uv_async_send ''dbgsrv_stop_'',
         Uv_close ''dbgsrv_send_'', Uv_close ''dbgsrv_clnt_'',
         Uv_close ''dbgsrv_serv_'', Uv_close ''dbgsrv_stop_'',
         Uv_thread_join ''dbgsrv_thread_'', Uv_loop_close ''dbgsrv_loop_'',
         Uv_async_send ''dbgproc_stop_'',
         Uv_close ''dbgproc_proc_'', Uv_close ''dbgproc_stop_'',
         Uv_thread_join ''dbgproc_thread_'', Uv_loop_close ''dbgproc_loop_''] \<and>
      status db' = dbgsrv_offline"
    by auto
  from destructor_sequence[OF a' b' c' d' e' f' g' h' l' m', of "fst bridge_started"] i'
  have k': "\<exists>db'. DbgSrv_dtor bridge_started = Inr (debugger_stop (fst bridge_started), db') \<and>
      calls db' = calls (snd bridge_started) @
        [V8_debugger_stop, Uv_async_send ''dbgsrv_stop_'',
         Uv_close ''dbgsrv_serv_'', Uv_close ''dbgsrv_stop_'',
         Uv_thread_join ''dbgsrv_thread_'', Uv_loop_close ''dbgsrv_loop_'',
         Uv_async_send ''dbgproc_stop_'',
         Uv_close ''dbgproc_proc_'', Uv_close ''dbgproc_stop_'',
         Uv_thread_join ''dbgproc_thread_'', Uv_loop_close ''dbgproc_loop_''] \<and>
      status db' = dbgsrv_offline"
    by auto
  from i j k i' k' show ?thesis by blast
qed

text \<open>
  Claim C3. Destroying a started, connected bridge is to stop and join the network
  loop, then stop and join the processing loop, and to complete without deadlock. The
  connected bridge that received a second connection event (\<^verbatim>\<open>accept_\<close> does not
  test \<^verbatim>\<open>status_\<close>, see the next section) has started the send handle and the
  client handle twice: its network loop counts six active handles. The destructor
  detaches from the engine and wakes the network thread, \<^verbatim>\<open>shutdown_\<close> closes
  the four handles once each, two handles stay counted, \<^verbatim>\<open>uv_run\<close> does not
  return, and \<^verbatim>\<open>uv_thread_join(&dbgsrv_thread_)\<close> blocks forever: the network
  thread is never joined and the processing loop is never stopped. On the bridge
  connected by a single connection event the destructor returns.
\<close>

theorem destructor_blocks_after_second_accept:
  "status (snd bridge_connected) = dbgsrv_connected \<and>
   dbgsrv_loop (snd bridge_connected) = Loop_init 4 \<and>
   accept 0 0 2 (snd bridge_connected) = Inr (snd bridge_reconnected) \<and>
   fst bridge_reconnected = fst bridge_connected \<and>
   status (snd bridge_reconnected) = dbgsrv_connected \<and>
   dbgsrv_serv (snd bridge_reconnected) = Handle_active \<and>
   dbgsrv_stop (snd bridge_reconnected) = Handle_active \<and>
   dbgsrv_send (snd bridge_reconnected) = Handle_active \<and>
   dbgsrv_clnt (snd bridge_reconnected) = Handle_active \<and>
   dbgsrv_thread (snd bridge_reconnected) = Thread_running \<and>
   dbgsrv_loop (snd bridge_reconnected) = Loop_init 6 \<and>
   shutdown (snd bridge_reconnected) =
     Inr ((snd bridge_reconnected)\<lparr>dbgsrv_send := Handle_closing,
            dbgsrv_clnt := Handle_closing, dbgsrv_serv := Handle_closing,
            dbgsrv_stop := Handle_closing, dbgsrv_loop := Loop_init 2,
            status := dbgsrv_offline,
            calls := calls (snd bridge_reconnected) @
              [Uv_close ''dbgsrv_send_'', Uv_close ''dbgsrv_clnt_'',
               Uv_close ''dbgsrv_serv_'', Uv_close ''dbgsrv_stop_'']\<rparr>) \<and>
   DbgSrv_dtor bridge_reconnected = Inl (Never_returns ''dbgsrv_thread_'') \<and>
   \<not> isl (DbgSrv_dtor bridge_connected)"
proof -
  have r: "snd bridge_reconnected =
     (snd bridge_connected)\<lparr>dbgsrv_loop := Loop_init 6, clnt_peer := Some 2,
        calls := calls (snd bridge_connected) @
          [Uv_tcp_init ''dbgsrv_clnt_'', Uv_accept, Uv_async_init ''dbgsrv_send_'',
           Uv_read_start ''dbgsrv_clnt_'']\<rparr>"
    and f: "fst bridge_reconnected = fst bridge_connected"
    by (simp_all add: bridge_reconnected_def bridge_connected_db bridge_started_db accept_def
          Let_def uv_handle_start_def)
  have a: "accept 0 0 2 (snd bridge_connected) = Inr (snd bridge_reconnected)"
    by (simp add: r) (simp add: bridge_connected_db bridge_started_db accept_def Let_def
          uv_handle_start_def)
  have s: "shutdown (snd bridge_reconnected) =
     Inr ((snd bridge_reconnected)\<lparr>dbgsrv_send := Handle_closing,
            dbgsrv_clnt := Handle_closing, dbgsrv_serv := Handle_closing,
            dbgsrv_stop := Handle_closing, dbgsrv_loop := Loop_init 2,
            status := dbgsrv_offline,
            calls := calls (snd bridge_reconnected) @
              [Uv_close ''dbgsrv_send_'', Uv_close ''dbgsrv_clnt_'',
               Uv_close ''dbgsrv_serv_'', Uv_close ''dbgsrv_stop_'']\<rparr>)"
    by (simp add: r bridge_connected_db bridge_started_db shutdown_def uv_close_def
          uv_handle_stop_def)
  have d: "DbgSrv_dtor bridge_reconnected = Inl (Never_returns ''dbgsrv_thread_'')"
    by (simp add: DbgSrv_dtor_def prod_eq_iff[of bridge_reconnected] split_beta Let_def
          r bridge_connected_db bridge_started_db uv_async_send_def shutdown_def uv_close_def
          uv_handle_stop_def uv_thread_join_def uv_loop_alive_def)
  have c: "\<not> isl (DbgSrv_dtor bridge_connected)"
    by (simp add: DbgSrv_dtor_def split_beta Let_def
          bridge_connected_db bridge_started_db uv_async_send_def shutdown_def uv_close_def
          uv_handle_stop_def uv_thread_join_def uv_loop_alive_def dbgproc_do_stop_def
          DbgSrv_ctor_def)
  show ?thesis
    using a f s d c
    by (simp add: r bridge_connected_db bridge_started_db)
qed

text \<open>
  A second connection event on which \<^verbatim>\<open>uv_accept\<close> fails leaves the connected
  bridge with a client handle that is closing; \<^verbatim>\<open>shutdown_\<close> then closes it a
  second time.
\<close>

lemma destructor_after_refused_second_accept:
  "accept 0 (- 24) 2 (snd bridge_connected) = Inr (snd bridge_refused) \<and>
   status (snd bridge_refused) = dbgsrv_connected \<and>
   dbgsrv_clnt (snd bridge_refused) = Handle_closing \<and>
   DbgSrv_dtor bridge_refused = Inl (Handle_Closing ''dbgsrv_clnt_'')"
proof -
  have r: "snd bridge_refused =
     (snd bridge_connected)\<lparr>dbgsrv_clnt := Handle_closing, clnt_peer := None,
        calls := calls (snd bridge_connected) @
          [Uv_tcp_init ''dbgsrv_clnt_'', Uv_accept, Uv_close ''dbgsrv_clnt_'']\<rparr>"
    by (simp add: bridge_refused_def bridge_connected_db bridge_started_db accept_def
          Let_def uv_close_def)
  have a: "accept 0 (- 24) 2 (snd bridge_connected) = Inr (snd bridge_refused)"
    by (simp add: r) (simp add: bridge_connected_db bridge_started_db accept_def Let_def
          uv_close_def)
  have d: "DbgSrv_dtor bridge_refused = Inl (Handle_Closing ''dbgsrv_clnt_'')"
    by (simp add: DbgSrv_dtor_def split_beta Let_def
          r bridge_connected_db bridge_started_db uv_async_send_def shutdown_def uv_close_def
          uv_handle_stop_def)
  show ?thesis using a d by (simp add: r bridge_connected_db bridge_started_db)
qed

section \<open>A connection event while a client is attached\<close>

text \<open>
  Claim C2 says that a connected bridge accepts no further client. \<^verbatim>\<open>accept_\<close>
  does not read \<^verbatim>\<open>status_\<close>: on the connected bridge whose client is connection
  1, a connection event with status 0 and a successful \<^verbatim>\<open>uv_accept\<close>
  initialises the live client handle and the live send handle again, without closing
  them, and attaches connection 2. Both handles are started a second time, so the
  network loop counts six active handles for the four that exist.
\<close>

theorem accept_while_connected:
  "status (snd bridge_connected) = dbgsrv_connected \<and>
   dbgsrv_clnt (snd bridge_connected) = Handle_active \<and>
   clnt_peer (snd bridge_connected) = Some 1 \<and>
   dbgsrv_loop (snd bridge_connected) = Loop_init 4 \<and>
   accept 0 0 2 (snd bridge_connected) =
     Inr ((snd bridge_connected)\<lparr>clnt_peer := Some 2, dbgsrv_loop := Loop_init 6,
            calls := calls (snd bridge_connected) @
              [Uv_tcp_init ''dbgsrv_clnt_'', Uv_accept, Uv_async_init ''dbgsrv_send_'',
               Uv_read_start ''dbgsrv_clnt_'']\<rparr>)"
  by (simp add: bridge_connected_db bridge_started_db accept_def Let_def uv_handle_start_def)

section \<open>\<^verbatim>\<open>debugger_send\<close> without a callback\<close>

text \<open>
  Claim C4 says that \<^verbatim>\<open>debugger_send\<close> returns false in every state without a
  callback. On an instance on which \<^verbatim>\<open>debugger_init\<close> never ran,
  \<^verbatim>\<open>dbg_isolate_\<close> is unassigned, and \<^verbatim>\<open>debugger_send\<close> constructs a
  \<^verbatim>\<open>v8::Locker\<close> on it before it tests the callback.
\<close>

theorem debugger_send_before_init:
  "debugger_send E cmd (V8_ctor E h0) = Inl (Uninitialized ''dbg_isolate_'')"
  by (simp add: debugger_send_def V8_ctor_def new_context_def Let_def split: prod.splits)

text \<open>
  Once \<^verbatim>\<open>debugger_init\<close> has run,
  \<^verbatim>\<open>debugger_send\<close> returns false without a callback, also after
  \<^verbatim>\<open>debugger_stop\<close>; with a callback, and when the engine creates the string, it
  hands the command text up to its first NUL byte to the engine and returns true.
\<close>

theorem debugger_send_after_init:
  assumes "dbg_isolate s = Isolate"
  shows "(callback s = None \<longrightarrow> debugger_send E cmd s = Inr (False, s)) \<and>
         (callback s \<noteq> None \<and> String_NewFromUtf8 E (c_str cmd) \<noteq> None \<longrightarrow>
            debugger_send E cmd s =
              Inr (True, s\<lparr>debug_commands := debug_commands s @ [c_str cmd]\<rparr>)) \<and>
         debugger_send E cmd (debugger_stop s) = Inr (False, debugger_stop s)"
  using assms by (auto simp add: debugger_send_def debugger_stop_def ToLocalChecked_def)

theorem debugger_send_after_init_witness:
  "dbg_isolate (fst bridge_started) = Isolate \<and>
   callback (fst bridge_started) \<noteq> None \<and>
   String_NewFromUtf8 toy_engine (c_str ''continue'') \<noteq> None \<and>
   debugger_send toy_engine ''continue'' (fst bridge_started) =
     Inr (True, (fst bridge_started)\<lparr>debug_commands := [''continue'']\<rparr>) \<and>
   debugger_send toy_engine ''continue'' (debugger_stop (fst bridge_started)) =
     Inr (False, debugger_stop (fst bridge_started))"
proof -
  have a: "dbg_isolate (fst bridge_started) = Isolate"
    and b: "callback (fst bridge_started) \<noteq> None"
    and d: "debug_commands (fst bridge_started) = []"
    by (simp_all add: bridge_started_v8 toy_v8_simp)
  have c: "String_NewFromUtf8 toy_engine (c_str ''continue'') \<noteq> None"
    by (simp add: toy_engine_def)
  have e: "c_str ''continue'' = ''continue''" by (simp add: c_str_def)
  from debugger_send_after_init[OF a, of toy_engine "''continue''"]
  show ?thesis using a b c d e by simp
qed

text \<open>
  \<^verbatim>\<open>debugger_init\<close> registers the callback and installs the
  message handler when no callback is registered, and returns true; with a callback
  registered it returns false and changes neither. In both cases it stores a new
  isolate in \<^verbatim>\<open>dbg_isolate_\<close>. A second \<^verbatim>\<open>debugger_init\<close> in a row
  returns false.
\<close>

theorem debugger_init_once:
  "(callback s = None \<longrightarrow>
      debugger_init cb opq s =
        (True, s\<lparr>dbg_isolate := Isolate, callback := Some cb, callbackopq := Some opq,
                  message_handler := True\<rparr>)) \<and>
   (callback s \<noteq> None \<longrightarrow>
      debugger_init cb opq s = (False, s\<lparr>dbg_isolate := Isolate\<rparr>)) \<and>
   fst (debugger_init cb' opq' (snd (debugger_init cb opq s))) = False"
  by (auto simp add: debugger_init_def Let_def)

theorem debugger_init_once_witness:
  "callback toy_v8 = None \<and>
   fst (debugger_init Recv_from_debugger 0 toy_v8) = True \<and>
   callback (snd (debugger_init Recv_from_debugger 0 toy_v8)) = Some Recv_from_debugger \<and>
   callback (snd (debugger_init Recv_from_debugger 0 toy_v8)) \<noteq> None \<and>
   debugger_init (Host_callback 7) 1 (snd (debugger_init Recv_from_debugger 0 toy_v8))
     = (False, snd (debugger_init Recv_from_debugger 0 toy_v8))"
proof -
  have a: "callback toy_v8 = None" by (simp add: toy_v8_simp)
  have b: "callback (snd (debugger_init Recv_from_debugger 0 toy_v8)) \<noteq> None"
    by (simp add: toy_v8_simp debugger_init_def Let_def)
  from debugger_init_once[of toy_v8 Recv_from_debugger 0 "Host_callback 7" 1]
       debugger_init_once[of "snd (debugger_init Recv_from_debugger 0 toy_v8)" "Host_callback 7" 1]
  show ?thesis using a b by simp
qed

section \<open>Inbound bytes and failed accepts\<close>

text \<open>
  A read of \<open>nread > 0\<close> bytes on a bridge whose instance has a
  callback hands the bytes read, up to the first NUL byte, to the engine's debug
  channel and wakes the processing loop; nothing else changes.
\<close>

theorem inbound_bytes_forwarded:
  assumes "0 < nread" and "dbg_isolate v = Isolate" and "callback v \<noteq> None"
    and "String_NewFromUtf8 E (c_str (take (nat nread) base)) \<noteq> None"
    and "dbgproc_proc db = Handle_active"
  shows "recv_from_socket E nread base (v, db) =
           Inr (v\<lparr>debug_commands := debug_commands v @ [c_str (take (nat nread) base)]\<rparr>,
                db\<lparr>calls := calls db @ [V8_debugger_send (take (nat nread) base),
                                        Uv_async_send ''dbgproc_proc_'']\<rparr>)"
  using assms
  by (auto simp add: recv_from_socket_def debugger_send_def ToLocalChecked_def uv_async_send_def)

theorem inbound_bytes_forwarded_witness:
  "(0::int) < 4 \<and> dbg_isolate (fst bridge_connected) = Isolate \<and>
   callback (fst bridge_connected) \<noteq> None \<and>
   dbgproc_proc (snd bridge_connected) = Handle_active \<and>
   recv_from_socket toy_engine 4 ''stepXYZ'' bridge_connected =
     Inr ((fst bridge_connected)\<lparr>debug_commands := [''step'']\<rparr>,
          (snd bridge_connected)\<lparr>calls := calls (snd bridge_connected) @
             [V8_debugger_send ''step'', Uv_async_send ''dbgproc_proc_'']\<rparr>)"
proof -
  have a: "(0::int) < 4" by simp
  have b: "dbg_isolate (fst bridge_connected) = Isolate"
    and c: "callback (fst bridge_connected) \<noteq> None"
    and d: "debug_commands (fst bridge_connected) = []"
    by (simp_all add: bridge_connected_v8 bridge_started_v8 toy_v8_simp)
  have e: "String_NewFromUtf8 toy_engine (c_str (take (nat 4) ''stepXYZ'')) \<noteq> None"
    by (simp add: toy_engine_def)
  have f: "dbgproc_proc (snd bridge_connected) = Handle_active"
    by (simp add: bridge_connected_db bridge_started_db DbgSrv_ctor_def)
  have g: "take (nat 4) ''stepXYZ'' = ''step''" "c_str ''step'' = ''step''"
    by (simp_all add: c_str_def)
  from inbound_bytes_forwarded[OF a b c e f]
  show ?thesis using a b c d f g by simp
qed

text \<open>
  A connection event with a negative status changes nothing. When
  \<^verbatim>\<open>uv_accept\<close> fails, \<^verbatim>\<open>accept_\<close> closes the client handle it has just
  initialised and leaves the status and the listening handle as they were.
\<close>

theorem failed_accept_keeps_state:
  "(st < 0 \<longrightarrow> accept st accept_r conn db = Inr db) \<and>
   (0 \<le> st \<and> accept_r \<noteq> 0 \<longrightarrow>
      (\<exists>db'. accept st accept_r conn db = Inr db' \<and> status db' = status db \<and>
             dbgsrv_serv db' = dbgsrv_serv db \<and> dbgsrv_clnt db' = Handle_closing \<and>
             clnt_peer db' = None))"
  by (simp add: accept_def Let_def uv_close_def)

theorem failed_accept_keeps_state_witness:
  "(-1::int) < 0 \<and> accept (-1) 0 2 (snd bridge_started) = Inr (snd bridge_started) \<and>
   (0::int) \<le> 0 \<and> (-24::int) \<noteq> 0 \<and>
   (\<exists>db'. accept 0 (-24) 2 (snd bridge_started) = Inr db' \<and> status db' = dbgsrv_started \<and>
          dbgsrv_serv db' = Handle_active \<and> dbgsrv_clnt db' = Handle_closing)"
proof -
  have s: "status (snd bridge_started) = dbgsrv_started"
    "dbgsrv_serv (snd bridge_started) = Handle_active"
    by (simp_all add: bridge_started_db)
  from failed_accept_keeps_state[of "-1" 0 2 "snd bridge_started"]
       failed_accept_keeps_state[of 0 "-24" 2 "snd bridge_started"]
  show ?thesis using s by auto
qed

section \<open>One context for the life of an instance\<close>

lemma new_context_stored:
  "context_persistent s = Some c \<Longrightarrow> new_context E s = (c, s)"
  by (simp add: new_context_def)

lemma V8_ctor_context:
  "context_persistent (V8_ctor E h0) = Some (fst (Context_New E h0))"
  by (simp add: V8_ctor_def new_context_def Let_def split: prod.splits)

lemma eval_stored:
  "context_persistent s = Some c \<Longrightarrow> eval E src s = eval_in E c src s"
  by (simp add: eval_def new_context_stored)

lemma call_stored:
  "context_persistent s = Some c \<Longrightarrow> call E func args s = call_in E c func args s"
  by (simp add: call_def new_context_stored)

lemma eval_in_isolate_only:
  "eval_in E c src s = Inr (txt, s') \<Longrightarrow> \<exists>h. s' = s\<lparr>isolate := h\<rparr>"
  by (auto simp add: eval_in_def split: sum.splits prod.splits)

lemma call_in_isolate_only:
  "call_in E c func args s = Inr (txt, s') \<Longrightarrow> \<exists>h. s' = s\<lparr>isolate := h\<rparr>"
  by (auto simp add: call_in_def split: sum.splits prod.splits if_splits)

lemma api_step_in_context:
  "api_step_in E c a s = Inr (txt, s') \<Longrightarrow> context_persistent s' = context_persistent s"
  by (cases a) (auto dest: eval_in_isolate_only call_in_isolate_only)

lemma api_step_stored:
  "context_persistent s = Some c \<Longrightarrow> api_step E a s = api_step_in E c a s"
  by (cases a) (simp_all add: eval_stored call_stored)

lemma api_run_stored:
  "context_persistent s = Some c \<Longrightarrow> api_run E ops s = api_run_in E c ops s"
proof (induction ops arbitrary: s)
  case Nil
  then show ?case by simp
next
  case (Cons a ops)
  show ?case
  proof (cases "api_step_in E c a s")
    case (Inl f)
    then show ?thesis using Cons.prems by (simp add: api_step_stored)
  next
    case (Inr r)
    obtain t s1 where r: "r = (t, s1)" by (cases r)
    have "context_persistent s1 = Some c"
      using api_step_in_context[of E c a s t s1] Inr r Cons.prems by simp
    from Cons.IH[OF this] show ?thesis
      using Inr r Cons.prems by (simp add: api_step_stored)
  qed
qed

lemma api_run_in_context:
  "api_run_in E c ops s = Inr (txts, s') \<Longrightarrow> context_persistent s' = context_persistent s"
proof (induction ops arbitrary: s txts)
  case Nil
  then show ?case by simp
next
  case (Cons a ops)
  then show ?case
    by (auto split: sum.splits prod.splits dest: api_step_in_context)
qed

lemma toy_two_evals:
  "api_run toy_engine [Eval ''x = 1'', Eval ''x + 1''] (V8_ctor toy_engine [])
     = Inr ([''1'', ''2''], (V8_ctor toy_engine [])\<lparr>isolate := [[(''x'', JNum 1)]]\<rparr>)"
  by code_simp

text \<open>
  Claim C5. The constructor creates the context (its \<^verbatim>\<open>new_context()\<close> finds
  \<^verbatim>\<open>context_\<close> empty) and stores it. Whenever a context is stored,
  \<^verbatim>\<open>new_context()\<close> returns it and creates nothing, so \<^verbatim>\<open>eval\<close> and
  \<^verbatim>\<open>call\<close> run their body in it. Hence every sequence of \<^verbatim>\<open>eval\<close> and
  \<^verbatim>\<open>call\<close> on a new instance runs each call in the constructor's context, on
  the isolate state its predecessor left, and the stored context never changes. With
  an engine in which an assignment binds a global of the context it runs in (the engine
  for concrete runs), \<^verbatim>\<open>eval("x = 1")\<close> followed by \<^verbatim>\<open>eval("x + 1")\<close>
  returns the texts 1 and 2.
\<close>

theorem persistent_scope:
  "context_persistent (V8_ctor E h0) = Some (fst (Context_New E h0)) \<and>
   (\<forall>c. context_persistent s = Some c \<longrightarrow>
      new_context E s = (c, s) \<and>
      eval E src s = eval_in E c src s \<and>
      call E func args s = call_in E c func args s) \<and>
   api_run E ops (V8_ctor E h0) = api_run_in E (fst (Context_New E h0)) ops (V8_ctor E h0) \<and>
   (\<forall>txts s'. api_run E ops (V8_ctor E h0) = Inr (txts, s') \<longrightarrow>
      context_persistent s' = Some (fst (Context_New E h0))) \<and>
   api_run toy_engine [Eval ''x = 1'', Eval ''x + 1''] (V8_ctor toy_engine [])
     = Inr ([''1'', ''2''], (V8_ctor toy_engine [])\<lparr>isolate := [[(''x'', JNum 1)]]\<rparr>)"
proof -
  have a: "api_run E ops (V8_ctor E h0) = api_run_in E (fst (Context_New E h0)) ops (V8_ctor E h0)"
    by (rule api_run_stored) (rule V8_ctor_context)
  have "context_persistent s' = Some (fst (Context_New E h0))"
    if "api_run E ops (V8_ctor E h0) = Inr (txts, s')" for txts s'
    using that a api_run_in_context[of E "fst (Context_New E h0)" ops "V8_ctor E h0" txts s']
    by (simp add: V8_ctor_context)
  then show ?thesis
    using a V8_ctor_context[of E h0] toy_two_evals
    by (simp add: new_context_stored eval_stored call_stored)
qed

theorem persistent_scope_witness:
  "context_persistent toy_v8 = Some 0 \<and>
   new_context toy_engine toy_v8 = (0, toy_v8) \<and>
   api_run toy_engine [Eval ''x = 1'', Eval ''x + 1''] toy_v8
     = api_run_in toy_engine 0 [Eval ''x = 1'', Eval ''x + 1''] toy_v8 \<and>
   api_run_in toy_engine 0 [Eval ''x = 1'', Eval ''x + 1''] toy_v8
     = Inr ([''1'', ''2''], toy_v8\<lparr>isolate := [[(''x'', JNum 1)]]\<rparr>) \<and>
   eval toy_engine ''x + 1'' toy_v8 = Inr (''ReferenceError: x is not defined'', toy_v8)"
proof -
  have c: "context_persistent toy_v8 = Some 0" by (simp add: toy_v8_simp)
  have n: "fst (Context_New toy_engine []) = 0" by (simp add: toy_engine_def)
  have e: "eval toy_engine ''x + 1'' toy_v8 = Inr (''ReferenceError: x is not defined'', toy_v8)"
    by code_simp
  note T = persistent_scope[of toy_engine "[]" toy_v8 "''x + 1''" "''f''" "''[]''"
      "[Eval ''x = 1'', Eval ''x + 1'']", folded toy_v8_def, unfolded n]
  from T c have t1: "new_context toy_engine toy_v8 = (0, toy_v8)" by blast
  from T have t2: "api_run toy_engine [Eval ''x = 1'', Eval ''x + 1''] toy_v8
     = api_run_in toy_engine 0 [Eval ''x = 1'', Eval ''x + 1''] toy_v8" by blast
  from T have t3: "api_run toy_engine [Eval ''x = 1'', Eval ''x + 1''] toy_v8
     = Inr ([''1'', ''2''], toy_v8\<lparr>isolate := [[(''x'', JNum 1)]]\<rparr>)" by blast
  from t2 t3 have t4: "api_run_in toy_engine 0 [Eval ''x = 1'', Eval ''x + 1''] toy_v8
     = Inr ([''1'', ''2''], toy_v8\<lparr>isolate := [[(''x'', JNum 1)]]\<rparr>)" by simp
  from c t1 t2 t4 e show ?thesis by blast
qed

section \<open>What \<^verbatim>\<open>eval\<close> returns\<close>

text \<open>
  Claim C6. \<^verbatim>\<open>eval\<close> is to return the exception text when the script fails and
  the JSON text of the value when it succeeds; the header promises the
  \<^emph>\<open>JSON-encoded result or exception message\<close>, and the paths on which the
  compilation or the run raises do return the text of the exception. When the script
  yields a value on which \<^verbatim>\<open>JSON.stringify\<close> raises, \<^verbatim>\<open>json_stringify\<close>
  drops the exception and returns the empty string: the script below compiles, runs
  and yields a cyclic object, \<^verbatim>\<open>JSON.stringify\<close> raises a \<^verbatim>\<open>TypeError\<close>,
  and \<^verbatim>\<open>eval\<close> returns the empty text, which is neither a JSON text nor the
  text of the exception.
\<close>

theorem eval_stringify_raises_returns_empty:
  "Script_Compile toy_engine (isolate toy_v8) 0 (JStr ''a = {}; a.a = a'') (JStr ''v8eval'')
     = (Inr (Make_cycle ''a''), isolate toy_v8) \<and>
   Script_Run toy_engine (isolate toy_v8) 0 (Make_cycle ''a'')
     = (Inr JCyclic, [[(''a'', JCyclic)]]) \<and>
   Function_Call toy_engine [[(''a'', JCyclic)]] 0 (JFunction ''JSON.stringify'')
       (JBuiltin ''JSON'') [JCyclic]
     = (Inl (JError ''TypeError: Converting circular structure to JSON''),
        [[(''a'', JCyclic)]]) \<and>
   eval toy_engine ''a = {}; a.a = a'' toy_v8
     = Inr ('''', toy_v8\<lparr>isolate := [[(''a'', JCyclic)]]\<rparr>)"
  by code_simp

lemma json_stringify_cases:
  "json_member E c ''stringify'' h = Inr (json, fn, h1) \<Longrightarrow>
   (\<forall>exc h2 e. Function_Call E h1 c fn json [val] = (Inl exc, h2) \<and> new_string E '''' = Inr e
      \<longrightarrow> json_stringify E c val h = Inr (Some e, h2)) \<and>
   (\<forall>r h2. Function_Call E h1 c fn json [val] = (Inr r, h2)
      \<longrightarrow> json_stringify E c val h = Inr (ToString E h2 c r))"
  by (simp add: json_stringify_def)

lemma to_std_string_cases:
  "fst (to_std_string E h c val) = ''Error: Cannot convert to string'' \<or>
   (\<exists>v str. val = Some v \<and> fst (Utf8Value E h c v) = Some str \<and>
      fst (to_std_string E h c val) = c_str str)"
  by (auto simp add: to_std_string_def split: option.splits prod.splits)

text \<open>
  The paths of \<^verbatim>\<open>eval\<close>, for every engine. Let the instance hold its context and
  let the engine create the strings for the source and the script name. Then: when the
  compilation fails,
  \<^verbatim>\<open>eval\<close> returns the text of the exception; when the script raises, the text
  of that exception; when the script yields a value and \<^verbatim>\<open>json_stringify\<close>
  returns (it finds \<^verbatim>\<open>JSON\<close> and \<^verbatim>\<open>JSON.stringify\<close>), the text of what
  it returned. \<^verbatim>\<open>json_stringify\<close> returns the empty string when the call of
  \<^verbatim>\<open>JSON.stringify\<close> raises, and otherwise the string conversion of its result.
  The text of a value is its UTF-8 conversion up to the first NUL byte, or
  \<^verbatim>\<open>Error: Cannot convert to string\<close> when there is none. In all these cases a
  string is returned and nothing is raised.
\<close>

theorem eval_result_text:
  assumes "context_persistent s = Some c"
    and "new_string E (c_str src) = Inr source"
    and "new_string E ''v8eval'' = Inr name"
  shows
   "(\<forall>exc h1. Script_Compile E (isolate s) c source name = (Inl exc, h1) \<longrightarrow>
       eval E src s = Inr (fst (to_std_string E h1 c (Some exc)),
                           s\<lparr>isolate := snd (to_std_string E h1 c (Some exc))\<rparr>)) \<and>
    (\<forall>script h1 exc h2.
       Script_Compile E (isolate s) c source name = (Inr script, h1) \<and>
       Script_Run E h1 c script = (Inl exc, h2) \<longrightarrow>
       eval E src s = Inr (fst (to_std_string E h2 c (Some exc)),
                           s\<lparr>isolate := snd (to_std_string E h2 c (Some exc))\<rparr>)) \<and>
    (\<forall>script h1 result h2 js h3.
       Script_Compile E (isolate s) c source name = (Inr script, h1) \<and>
       Script_Run E h1 c script = (Inr result, h2) \<and>
       json_stringify E c result h2 = Inr (js, h3) \<longrightarrow>
       eval E src s = Inr (fst (to_std_string E h3 c js),
                           s\<lparr>isolate := snd (to_std_string E h3 c js)\<rparr>)) \<and>
    (\<forall>h val json fn h1.
       json_member E c ''stringify'' h = Inr (json, fn, h1) \<longrightarrow>
       (\<forall>exc h2 e. Function_Call E h1 c fn json [val] = (Inl exc, h2) \<and>
                   new_string E '''' = Inr e \<longrightarrow>
          json_stringify E c val h = Inr (Some e, h2)) \<and>
       (\<forall>r h2. Function_Call E h1 c fn json [val] = (Inr r, h2) \<longrightarrow>
          json_stringify E c val h = Inr (ToString E h2 c r))) \<and>
    (\<forall>h val. fst (to_std_string E h c val) = ''Error: Cannot convert to string'' \<or>
       (\<exists>v str. val = Some v \<and> fst (Utf8Value E h c v) = Some str \<and>
          fst (to_std_string E h c val) = c_str str))"
proof -
  have e: "eval E src s = eval_in E c src s"
    using assms(1) by (rule eval_stored)
  show ?thesis
    unfolding e
    using assms(2,3) json_stringify_cases[of E c] to_std_string_cases[of E _ c]
    by (simp add: eval_in_def split: prod.splits)
qed

theorem eval_result_text_witness:
  "context_persistent toy_v8 = Some 0 \<and>
   new_string toy_engine (c_str ''1 +'') = Inr (JStr ''1 +'') \<and>
   new_string toy_engine ''v8eval'' = Inr (JStr ''v8eval'') \<and>
   eval toy_engine ''1 +'' toy_v8 = Inr (''SyntaxError: Unexpected token'', toy_v8) \<and>
   eval toy_engine ''x + 1'' toy_v8 = Inr (''ReferenceError: x is not defined'', toy_v8) \<and>
   eval toy_engine ''x = 1'' toy_v8 = Inr (''1'', toy_v8\<lparr>isolate := [[(''x'', JNum 1)]]\<rparr>) \<and>
   eval toy_engine ''a = {}; a.a = a'' toy_v8
     = Inr ('''', toy_v8\<lparr>isolate := [[(''a'', JCyclic)]]\<rparr>)"
proof -
  have c: "context_persistent toy_v8 = Some 0" by (simp add: toy_v8_simp)
  have n: "new_string toy_engine (c_str ''1 +'') = Inr (JStr ''1 +'')"
          "new_string toy_engine (c_str ''x + 1'') = Inr (JStr ''x + 1'')"
          "new_string toy_engine (c_str ''x = 1'') = Inr (JStr ''x = 1'')"
          "new_string toy_engine ''v8eval'' = Inr (JStr ''v8eval'')"
          "new_string toy_engine (c_str ''a = {}; a.a = a'') = Inr (JStr ''a = {}; a.a = a'')"
    by code_simp+
  have i: "isolate toy_v8 = [[]]" by (simp add: toy_v8_simp)
  have k4: "Script_Compile toy_engine [[]] 0 (JStr ''a = {}; a.a = a'') (JStr ''v8eval'')
              = (Inr (Make_cycle ''a''), [[]])"
       "Script_Run toy_engine [[]] 0 (Make_cycle ''a'') = (Inr JCyclic, [[(''a'', JCyclic)]])"
       "json_stringify toy_engine 0 JCyclic [[(''a'', JCyclic)]]
              = Inr (Some (JStr ''''), [[(''a'', JCyclic)]])"
       "to_std_string toy_engine [[(''a'', JCyclic)]] 0 (Some (JStr ''''))
              = ('''', [[(''a'', JCyclic)]])"
    by code_simp+
  have k1: "Script_Compile toy_engine [[]] 0 (JStr ''1 +'') (JStr ''v8eval'')
              = (Inl (JError ''SyntaxError: Unexpected token''), [[]])"
    by code_simp
  have k2: "Script_Compile toy_engine [[]] 0 (JStr ''x + 1'') (JStr ''v8eval'')
              = (Inr (Add_global ''x'' 1), [[]])"
       "Script_Run toy_engine [[]] 0 (Add_global ''x'' 1)
              = (Inl (JError ''ReferenceError: x is not defined''), [[]])"
    by code_simp+
  have k3: "Script_Compile toy_engine [[]] 0 (JStr ''x = 1'') (JStr ''v8eval'')
              = (Inr (Assign ''x'' 1), [[]])"
       "Script_Run toy_engine [[]] 0 (Assign ''x'' 1) = (Inr (JNum 1), [[(''x'', JNum 1)]])"
       "json_stringify toy_engine 0 (JNum 1) [[(''x'', JNum 1)]]
              = Inr (Some (JStr ''1''), [[(''x'', JNum 1)]])"
    by code_simp+
  have t: "to_std_string toy_engine [[]] 0 (Some (JError ''SyntaxError: Unexpected token''))
             = (''SyntaxError: Unexpected token'', [[]])"
          "to_std_string toy_engine [[]] 0 (Some (JError ''ReferenceError: x is not defined''))
             = (''ReferenceError: x is not defined'', [[]])"
          "to_std_string toy_engine [[(''x'', JNum 1)]] 0 (Some (JStr ''1''))
             = (''1'', [[(''x'', JNum 1)]])"
    by code_simp+
  from eval_result_text[OF c n(1) n(4)] k1 i t(1)
  have e1: "eval toy_engine ''1 +'' toy_v8 = Inr (''SyntaxError: Unexpected token'', toy_v8)"
    by simp
  from eval_result_text[OF c n(2) n(4)] k2 i t(2)
  have e2: "eval toy_engine ''x + 1'' toy_v8
              = Inr (''ReferenceError: x is not defined'', toy_v8)"
    by simp
  from eval_result_text[OF c n(3) n(4)] k3 i t(3)
  have e3: "eval toy_engine ''x = 1'' toy_v8
              = Inr (''1'', toy_v8\<lparr>isolate := [[(''x'', JNum 1)]]\<rparr>)"
    by simp
  from eval_result_text[OF c n(5) n(4)] k4 i
  have e4: "eval toy_engine ''a = {}; a.a = a'' toy_v8
              = Inr ('''', toy_v8\<lparr>isolate := [[(''a'', JCyclic)]]\<rparr>)"
    by simp
  from c n(1) n(4) e1 e2 e3 e4 show ?thesis by blast
qed

section \<open>What \<^verbatim>\<open>call\<close> returns\<close>





end
